theory Spec2Isabelle
  imports Complex_Main
begin

section \<open>Floating-point values as numpy sees them\<close>

text \<open>
  The two pipeline steps compute on numpy float64 arrays. A value is a finite number,
  one of the two infinities, or NaN. Finite values are modelled by exact reals:
  rounding, overflow and the sign of zero are not modelled. The special values follow
  IEEE 754, which is what decides every comparison and mask of the source.
\<close>

datatype npfloat = Fin real | PInf | NInf | NaN

fun isnan :: "npfloat \<Rightarrow> bool" where
  "isnan NaN = True"
| "isnan _ = False"

fun fneg :: "npfloat \<Rightarrow> npfloat" where
  "fneg (Fin x) = Fin (- x)"
| "fneg PInf = NInf"
| "fneg NInf = PInf"
| "fneg NaN = NaN"

fun fabs :: "npfloat \<Rightarrow> npfloat" where
  "fabs (Fin x) = Fin \<bar>x\<bar>"
| "fabs PInf = PInf"
| "fabs NInf = PInf"
| "fabs NaN = NaN"

fun fadd :: "npfloat \<Rightarrow> npfloat \<Rightarrow> npfloat" where
  "fadd NaN _ = NaN"
| "fadd _ NaN = NaN"
| "fadd (Fin x) (Fin y) = Fin (x + y)"
| "fadd (Fin x) PInf = PInf"
| "fadd (Fin x) NInf = NInf"
| "fadd PInf (Fin y) = PInf"
| "fadd NInf (Fin y) = NInf"
| "fadd PInf PInf = PInf"
| "fadd NInf NInf = NInf"
| "fadd PInf NInf = NaN"
| "fadd NInf PInf = NaN"

definition fsub :: "npfloat \<Rightarrow> npfloat \<Rightarrow> npfloat" where
  "fsub a b = fadd a (fneg b)"

text \<open>The sign of a value that is not NaN: \<open>-1\<close>, \<open>0\<close> or \<open>1\<close>.\<close>

fun fsgn :: "npfloat \<Rightarrow> int" where
  "fsgn (Fin x) = (if x < 0 then - 1 else if x = 0 then 0 else 1)"
| "fsgn PInf = 1"
| "fsgn NInf = - 1"
| "fsgn NaN = 0"

definition finf :: "int \<Rightarrow> npfloat" where
  "finf s = (if s < 0 then NInf else PInf)"

fun fmul :: "npfloat \<Rightarrow> npfloat \<Rightarrow> npfloat" where
  "fmul NaN _ = NaN"
| "fmul _ NaN = NaN"
| "fmul (Fin x) (Fin y) = Fin (x * y)"
| "fmul a b = (if fsgn a = 0 \<or> fsgn b = 0 then NaN else finf (fsgn a * fsgn b))"

text \<open>
  numpy division does not raise: a nonzero value over zero is an infinity, zero over
  zero and infinity over infinity are NaN, a finite value over an infinity is zero.
\<close>

fun fdiv :: "npfloat \<Rightarrow> npfloat \<Rightarrow> npfloat" where
  "fdiv NaN _ = NaN"
| "fdiv _ NaN = NaN"
| "fdiv (Fin x) (Fin y) =
     (if y = 0 then (if x = 0 then NaN else if 0 < x then PInf else NInf) else Fin (x / y))"
| "fdiv (Fin x) PInf = Fin 0"
| "fdiv (Fin x) NInf = Fin 0"
| "fdiv PInf (Fin y) = (if y < 0 then NInf else PInf)"
| "fdiv NInf (Fin y) = (if y < 0 then PInf else NInf)"
| "fdiv PInf PInf = NaN"
| "fdiv PInf NInf = NaN"
| "fdiv NInf PInf = NaN"
| "fdiv NInf NInf = NaN"

fun isfinite :: "npfloat \<Rightarrow> bool" where
  "isfinite (Fin x) = True"
| "isfinite _ = False"

text \<open>Comparisons: every ordered comparison with NaN is false, \<open>!=\<close> with NaN is true.\<close>

fun flt :: "npfloat \<Rightarrow> npfloat \<Rightarrow> bool" where
  "flt NaN _ = False"
| "flt _ NaN = False"
| "flt (Fin x) (Fin y) = (x < y)"
| "flt (Fin x) PInf = True"
| "flt (Fin x) NInf = False"
| "flt PInf _ = False"
| "flt NInf NInf = False"
| "flt NInf _ = True"

definition fgt :: "npfloat \<Rightarrow> npfloat \<Rightarrow> bool" where
  "fgt a b = flt b a"

fun fle :: "npfloat \<Rightarrow> npfloat \<Rightarrow> bool" where
  "fle NaN _ = False"
| "fle _ NaN = False"
| "fle a b = (\<not> flt b a)"

definition fge :: "npfloat \<Rightarrow> npfloat \<Rightarrow> bool" where
  "fge a b = fle b a"

fun fne :: "npfloat \<Rightarrow> npfloat \<Rightarrow> bool" where
  "fne NaN _ = True"
| "fne _ NaN = True"
| "fne a b = (a \<noteq> b)"

fun fsqrt :: "npfloat \<Rightarrow> npfloat" where
  "fsqrt (Fin x) = (if x < 0 then NaN else Fin (sqrt x))"
| "fsqrt PInf = PInf"
| "fsqrt NInf = NaN"
| "fsqrt NaN = NaN"

fun flog10 :: "npfloat \<Rightarrow> npfloat" where
  "flog10 (Fin x) = (if x < 0 then NaN else if x = 0 then NInf else Fin (log 10 x))"
| "flog10 PInf = PInf"
| "flog10 NInf = NaN"
| "flog10 NaN = NaN"

text \<open>\<open>10 ** v\<close>.\<close>

fun fpow10 :: "npfloat \<Rightarrow> npfloat" where
  "fpow10 (Fin x) = Fin (10 powr x)"
| "fpow10 PInf = PInf"
| "fpow10 NInf = Fin 0"
| "fpow10 NaN = NaN"

definition fsum :: "npfloat list \<Rightarrow> npfloat" where
  "fsum xs = foldl fadd (Fin 0) xs"

text \<open>
  The order in which numpy sorts: ascending, with every NaN after every number.
\<close>

fun np_le :: "npfloat \<Rightarrow> npfloat \<Rightarrow> bool" where
  "np_le _ NaN = True"
| "np_le NaN _ = False"
| "np_le a b = (\<not> flt b a)"

section \<open>numpy array operations\<close>

datatype error = IndexError | KeyError | ValueError

text \<open>\<open>arr[mask]\<close> with a boolean mask of the same length: the entries whose mask is true,
  in order.\<close>

definition bmask :: "'a list \<Rightarrow> bool list \<Rightarrow> 'a list" where
  "bmask xs m = map fst (filter snd (zip xs m))"

text \<open>\<open>np.take_along_axis(arr, idx, axis=0)\<close> on a one-dimensional array: the entries at
  the given positions; a position outside the array raises IndexError.\<close>

definition take_along_axis :: "'a list \<Rightarrow> nat list \<Rightarrow> error + 'a list" where
  "take_along_axis xs idx =
     (if \<forall>i \<in> set idx. i < length xs then Inr (map (\<lambda>i. xs ! i) idx) else Inl IndexError)"

text \<open>\<open>np.arange(n - 1, -1, -1)\<close>: the positions \<open>n - 1, ..., 0\<close>.\<close>

definition arange_down :: "nat \<Rightarrow> nat list" where
  "arange_down n = rev [0..<n]"

text \<open>\<open>np.arange(1, n + 1)\<close>.\<close>

definition arange1 :: "nat \<Rightarrow> nat list" where
  "arange1 n = [1..<n + 1]"

text \<open>\<open>np.nanmean\<close>: the mean of the entries that are not NaN; NaN (with a warning, not an
  exception) when there is none.\<close>

definition nanmean :: "npfloat list \<Rightarrow> npfloat" where
  "nanmean xs =
     (let ys = filter (\<lambda>v. \<not> isnan v) xs
      in if ys = [] then NaN else fdiv (fsum ys) (Fin (real (length ys))))"

text \<open>Insertion into a list that is ascending in numpy's order.\<close>

fun np_insort :: "npfloat \<Rightarrow> npfloat list \<Rightarrow> npfloat list" where
  "np_insort v [] = [v]"
| "np_insort v (w # ws) = (if np_le v w then v # w # ws else w # np_insort v ws)"

definition np_sort :: "npfloat list \<Rightarrow> npfloat list" where
  "np_sort xs = foldr np_insort xs []"

text \<open>\<open>np.nanmedian\<close>: the median of the entries that are not NaN (the mean of the two
  middle ones for an even count); NaN when there is none.\<close>

definition nanmedian :: "npfloat list \<Rightarrow> npfloat" where
  "nanmedian xs =
     (let ys = np_sort (filter (\<lambda>v. \<not> isnan v) xs); n = length ys
      in if n = 0 then NaN
         else if odd n then ys ! (n div 2)
         else fdiv (fadd (ys ! (n div 2 - 1)) (ys ! (n div 2))) (Fin 2))"

text \<open>\<open>astropy.stats.mad_std(data, ignore_nan=True)\<close>: the median absolute deviation,
  with \<open>np.nanmedian\<close> as the median, times \<open>1.482602218505602\<close>.\<close>

definition mad_std :: "npfloat list \<Rightarrow> npfloat" where
  "mad_std xs =
     (let med = nanmedian xs
      in fmul (nanmedian (map (\<lambda>v. fabs (fsub v med)) xs)) (Fin 1.482602218505602))"

section \<open>The data object and the step object\<close>

text \<open>
  A pipeline data object holds a header (keyword to value and comment), an image and
  named tables. The step framework's \<open>getheadval\<close>, \<open>setheadval\<close> and \<open>tableset\<close>
  are the lookup and the updates of these maps; a keyword that is absent has no value to
  return and is a KeyError.

  The header is a FITS header of astropy: the astrometry step hands it to \<open>wcs.WCS\<close>
  and assigns to \<open>header['CRPIX1']\<close> (lines 163-172 of \<open>stepastrometry.py\<close>). Such a
  header does not take a floating-point value that is NaN or infinite: the assignment
  raises ValueError. \<open>put_header\<close> is the update itself, \<open>setheadval\<close> the call
  with this refusal.

  A step object refers to its input and output data objects. References are made
  explicit: \<open>datain\<close> and \<open>dataout\<close> are addresses into a store of data objects, so
  that \<open>self.dataout = self.datain\<close> is the sharing the source has.
\<close>

type_synonym image = "npfloat list list"

record table =
  col_ID :: "nat list"
  col_X :: "npfloat list"
  col_Y :: "npfloat list"
  col_Flux :: "npfloat list"
  col_Fluxerr :: "npfloat list"
  col_RH :: "npfloat list"

record pipedata =
  header :: "string \<rightharpoonup> npfloat \<times> string"
  image :: image
  tables :: "string \<rightharpoonup> table"

type_synonym ref = nat

type_synonym store = "ref \<Rightarrow> pipedata"

record step =
  datain :: ref
  dataout :: "ref option"

definition bind_err :: "error + 'a \<Rightarrow> ('a \<Rightarrow> error + 'b) \<Rightarrow> error + 'b" where
  "bind_err m f = (case m of Inl e \<Rightarrow> Inl e | Inr v \<Rightarrow> f v)"

definition getheadval :: "pipedata \<Rightarrow> string \<Rightarrow> error + npfloat" where
  "getheadval d key = (case header d key of None \<Rightarrow> Inl KeyError | Some (v, c) \<Rightarrow> Inr v)"

definition put_header :: "string \<Rightarrow> npfloat \<Rightarrow> string \<Rightarrow> pipedata \<Rightarrow> pipedata" where
  "put_header key v comment d = d\<lparr>header := (header d)(key \<mapsto> (v, comment))\<rparr>"

definition setheadval :: "string \<Rightarrow> npfloat \<Rightarrow> string \<Rightarrow> pipedata \<Rightarrow> error + pipedata" where
  "setheadval key v comment d =
     (if isfinite v then Inr (put_header key v comment d) else Inl ValueError)"

definition tableset :: "table \<Rightarrow> string \<Rightarrow> pipedata \<Rightarrow> pipedata" where
  "tableset t name d = d\<lparr>tables := (tables d)(name \<mapsto> t)\<rparr>"

section \<open>The source extraction step (StepSrcExtPy)\<close>

text \<open>One detected object, with the fields of the SEP result that the step reads.\<close>

record source =
  src_x :: npfloat
  src_y :: npfloat
  src_a :: npfloat
  src_b :: npfloat
  src_theta :: npfloat
  src_xmin :: int
  src_xmax :: int
  src_ymin :: int
  src_ymax :: int
  src_flux :: npfloat

text \<open>
  The SEP library is outside the repository; the step is modelled for any implementation
  of its five functions. \<open>sep_extract\<close> takes the image, the threshold, the error map
  and \<open>deblend_nthresh\<close> (\<open>None\<close> when the call does not pass it, so that the library's
  default applies). \<open>kron_radius\<close>, \<open>sum_ellipse\<close> and \<open>flux_radius\<close> work on arrays
  elementwise: the functions here give the result for one object and are mapped over the
  objects. \<open>sum_ellipse\<close> takes, after the ellipse, the radius \<open>r\<close>, the error map and
  \<open>subpix\<close>.
\<close>

record sep_lib =
  sep_Background :: "image \<Rightarrow> npfloat \<Rightarrow> nat \<Rightarrow> nat \<Rightarrow> nat \<Rightarrow> nat \<Rightarrow> npfloat \<Rightarrow> image \<times> image"
  sep_extract :: "image \<Rightarrow> npfloat \<Rightarrow> image \<Rightarrow> nat option \<Rightarrow> source list"
  sep_kron_radius ::
    "image \<Rightarrow> npfloat \<Rightarrow> npfloat \<Rightarrow> npfloat \<Rightarrow> npfloat \<Rightarrow> npfloat \<Rightarrow> npfloat \<Rightarrow> npfloat \<times> nat"
  sep_sum_ellipse ::
    "image \<Rightarrow> npfloat \<Rightarrow> npfloat \<Rightarrow> npfloat \<Rightarrow> npfloat \<Rightarrow> npfloat \<Rightarrow> npfloat \<Rightarrow> image \<Rightarrow> nat
       \<Rightarrow> npfloat \<times> npfloat \<times> nat"
  sep_flux_radius :: "image \<Rightarrow> npfloat \<Rightarrow> npfloat \<Rightarrow> npfloat \<Rightarrow> npfloat \<Rightarrow> npfloat \<times> nat"

text \<open>The parameters of the step (\<open>setup\<close>), with the names of the parameter list.\<close>

record srcext_args =
  maskthreshold :: npfloat
  backgroundwh :: "nat \<times> nat"
  filterwh :: "nat \<times> nat"
  fthreshold :: npfloat
  extractthersh :: npfloat
  bfactor :: npfloat
  deblend :: nat
  kronf :: npfloat

definition srcext_defaults :: srcext_args where
  "srcext_defaults =
     \<lparr>maskthreshold = Fin 0, backgroundwh = (16, 16), filterwh = (3, 3), fthreshold = Fin 0,
      extractthersh = Fin 2, bfactor = Fin 10, deblend = 256, kronf = Fin 2.5\<rparr>"

text \<open>\<open>image - bkg_image\<close>, elementwise; the background has the shape of the image.\<close>

definition image_minus :: "image \<Rightarrow> image \<Rightarrow> image" where
  "image_minus im bk = map2 (map2 fsub) im bk"

text \<open>
  The idiom of lines 146-148, 151-153, 198-200 and 209-211: the positions that put the
  keys in descending order, as \<open>np.argsort\<close> reversed. \<open>np.argsort\<close> is a parameter:
  its default kind is not a stable sort, and the order it gives to equal keys is not
  fixed by numpy.
\<close>

definition rev_argsort :: "(npfloat list \<Rightarrow> nat list) \<Rightarrow> npfloat list \<Rightarrow> error + nat list" where
  "rev_argsort argsort keys =
     (let ind = argsort keys;
          reverser = arange_down (length ind)
      in take_along_axis ind reverser)"

text \<open>What one threshold's processing leaves in the variables the tables are built from.\<close>

record measured =
  m_objects :: "source list"
  m_flux_elip :: "npfloat list"
  m_fluxerr_elip :: "npfloat list"
  m_rh :: "npfloat list"
  m_seo_SN :: "bool list"

text \<open>The elongation limit \<open>elim\<close> of line 221.\<close>

definition elim :: npfloat where
  "elim = Fin 1.5"

text \<open>
  The low-threshold statements of \<open>run\<close>: lines 142, 146-149, 163-164, 171-172,
  179-180, 186, 192, 209-216 and 223-224. The division by 2 of lines 179-180 is the true
  division of Python 3, which the step framework runs on.
\<close>

definition low_path ::
  "sep_lib \<Rightarrow> (npfloat list \<Rightarrow> nat list) \<Rightarrow> image \<Rightarrow> image \<Rightarrow> npfloat \<Rightarrow> nat \<Rightarrow> npfloat
     \<Rightarrow> error + measured" where
  "low_path sep argsort image_sub bkg_rms extract_thresh deblend_nthresh kfactor =
     (let sources = sep_extract sep image_sub extract_thresh bkg_rms (Some deblend_nthresh)
      in bind_err (rev_argsort argsort (map src_flux sources)) (\<lambda>rev_ind.
         bind_err (take_along_axis sources rev_ind) (\<lambda>objects.
         let kronrad = map (\<lambda>ob. fst (sep_kron_radius sep image_sub (src_x ob) (src_y ob)
                              (src_a ob) (src_b ob) (src_theta ob) (Fin 6))) objects;
             summed = map2 (\<lambda>ob k. sep_sum_ellipse sep image_sub (src_x ob) (src_y ob)
                              (src_a ob) (src_b ob) (src_theta ob) (fmul kfactor k) bkg_rms 1)
                        objects kronrad;
             flux_elip = map fst summed;
             fluxerr_elip = map (\<lambda>r. fst (snd r)) summed;
             dx = map (\<lambda>ob. real_of_int (src_xmax ob - src_xmin ob) / 2) objects;
             dy = map (\<lambda>ob. real_of_int (src_ymax ob - src_ymin ob) / 2) objects;
             rmax = map2 (\<lambda>u v. Fin (sqrt (u * u + v * v))) dx dy;
             rh = map2 (\<lambda>ob r. fst (sep_flux_radius sep image_sub (src_x ob) (src_y ob) r
                              (Fin 0.5))) objects rmax
         in bind_err (rev_argsort argsort flux_elip) (\<lambda>rev_ind.
            bind_err (take_along_axis flux_elip rev_ind) (\<lambda>flux_elip.
            bind_err (take_along_axis fluxerr_elip rev_ind) (\<lambda>fluxerr_elip.
            bind_err (take_along_axis objects rev_ind) (\<lambda>objects.
            bind_err (take_along_axis rh rev_ind) (\<lambda>rh.
            let elong = map (\<lambda>ob. flt (fdiv (src_a ob) (src_b ob)) elim) objects;
                seo_SN = map2 (\<and>) (map2 (\<and>) (map2 (\<and>) elong
                           (map (\<lambda>v. flt v (Fin 1000)) (map2 fdiv flux_elip fluxerr_elip)))
                           (map (\<lambda>v. fne v (Fin 0)) fluxerr_elip))
                           (map (\<lambda>v. fne v (Fin 0)) flux_elip)
            in Inr \<lparr>m_objects = objects, m_flux_elip = flux_elip,
                     m_fluxerr_elip = fluxerr_elip, m_rh = rh, m_seo_SN = seo_SN\<rparr>))))))))"

text \<open>
  The high-threshold statements of \<open>run\<close>: lines 143, 151-154, 166-167, 173-175,
  182-183, 187, 193, 198-205 and 227-228. The call of line 143 does not pass
  \<open>deblend_nthresh\<close>.
\<close>

definition high_path ::
  "sep_lib \<Rightarrow> (npfloat list \<Rightarrow> nat list) \<Rightarrow> image \<Rightarrow> image \<Rightarrow> npfloat \<Rightarrow> npfloat \<Rightarrow> npfloat
     \<Rightarrow> error + measured" where
  "high_path sep argsort image_sub bkg_rms extract_thresh bright_factor kfactor =
     (let sourcesb = sep_extract sep image_sub (fmul extract_thresh bright_factor) bkg_rms None
      in bind_err (rev_argsort argsort (map src_flux sourcesb)) (\<lambda>rev_indb.
         bind_err (take_along_axis sourcesb rev_indb) (\<lambda>objectsb.
         let kronradb = map (\<lambda>ob. fst (sep_kron_radius sep image_sub (src_x ob) (src_y ob)
                              (src_a ob) (src_b ob) (src_theta ob) (Fin 6))) objectsb;
             summedb = map2 (\<lambda>ob k. sep_sum_ellipse sep image_sub (src_x ob) (src_y ob)
                              (src_a ob) (src_b ob) (src_theta ob) (fmul kfactor k) bkg_rms 1)
                        objectsb kronradb;
             flux_elipb = map fst summedb;
             fluxerr_elipb = map (\<lambda>r. fst (snd r)) summedb;
             dxb = map (\<lambda>ob. real_of_int (src_xmax ob - src_xmin ob) / 2) objectsb;
             dyb = map (\<lambda>ob. real_of_int (src_ymax ob - src_ymin ob) / 2) objectsb;
             rmaxb = map2 (\<lambda>u v. Fin (sqrt (u * u + v * v))) dxb dyb;
             rhb = map2 (\<lambda>ob r. fst (sep_flux_radius sep image_sub (src_x ob) (src_y ob) r
                              (Fin 0.5))) objectsb rmaxb
         in bind_err (rev_argsort argsort flux_elipb) (\<lambda>rev_indb.
            bind_err (take_along_axis flux_elipb rev_indb) (\<lambda>flux_elipb.
            bind_err (take_along_axis fluxerr_elipb rev_indb) (\<lambda>fluxerr_elipb.
            bind_err (take_along_axis objectsb rev_indb) (\<lambda>objectsb.
            bind_err (take_along_axis rhb rev_indb) (\<lambda>rhb.
            let elongb = map (\<lambda>ob. flt (fdiv (src_a ob) (src_b ob)) elim) objectsb;
                seo_SNB = map2 (\<and>) (map2 (\<and>) (map2 (\<and>) elongb
                           (map (\<lambda>v. flt v (Fin 1000)) (map2 fdiv flux_elipb fluxerr_elipb)))
                           (map (\<lambda>v. fne v (Fin 0)) fluxerr_elipb))
                           (map (\<lambda>v. fne v (Fin 0)) flux_elipb)
            in Inr \<lparr>m_objects = objectsb, m_flux_elip = flux_elipb,
                     m_fluxerr_elip = fluxerr_elipb, m_rh = rhb, m_seo_SN = seo_SNB\<rparr>))))))))"

text \<open>The table of lines 241-257 and 286 (and of lines 262-278 and 288): the accepted
  rows of each column, numbered from 1.\<close>

definition make_table :: "measured \<Rightarrow> table" where
  "make_table m =
     \<lparr>col_ID = arange1 (length (bmask (map src_x (m_objects m)) (m_seo_SN m))),
      col_X = bmask (map src_x (m_objects m)) (m_seo_SN m),
      col_Y = bmask (map src_y (m_objects m)) (m_seo_SN m),
      col_Flux = bmask (m_flux_elip m) (m_seo_SN m),
      col_Fluxerr = bmask (m_fluxerr_elip m) (m_seo_SN m),
      col_RH = bmask (m_rh m) (m_seo_SN m)\<rparr>"

text \<open>
  Lines 109-228 of \<open>StepSrcExtPy.run\<close>: background, subtraction, and the two
  thresholds, from the image \<open>psimage\<close> of the input object. The byte swap of
  line 110 makes a copy of it in native byte order and leaves the values as they are.
\<close>

definition extract_and_measure ::
  "sep_lib \<Rightarrow> (npfloat list \<Rightarrow> nat list) \<Rightarrow> srcext_args \<Rightarrow> image \<Rightarrow> error + measured \<times> measured" where
  "extract_and_measure sep argsort args psimage =
     (let (bkg_image, bkg_rms) = sep_Background sep psimage (maskthreshold args)
            (fst (backgroundwh args)) (snd (backgroundwh args))
            (fst (filterwh args)) (snd (filterwh args)) (fthreshold args);
          image_sub = image_minus psimage bkg_image;
          extract_thresh = extractthersh args;
          bright_factor = bfactor args;
          deblend_nthresh = deblend args;
          kfactor = kronf args
      in bind_err (low_path sep argsort image_sub bkg_rms extract_thresh deblend_nthresh kfactor)
           (\<lambda>lo.
         bind_err (high_path sep argsort image_sub bkg_rms extract_thresh bright_factor kfactor)
           (\<lambda>hi. Inr (lo, hi))))"

text \<open>
  \<open>StepSrcExtPy.run\<close>. The output object is the input object, and every keyword and
  table is set on it; a keyword whose value is NaN or infinite makes the run raise at
  that call. The optional text and region files of lines 303-321 are written from the
  finished object and are not modelled.
\<close>

definition run_srcextpy ::
  "sep_lib \<Rightarrow> (npfloat list \<Rightarrow> nat list) \<Rightarrow> srcext_args \<Rightarrow> step \<Rightarrow> store \<Rightarrow> error + step \<times> store" where
  "run_srcextpy sep argsort args self st =
     bind_err (getheadval (st (datain self)) ''XBIN'') (\<lambda>binning.
     bind_err (extract_and_measure sep argsort args (image (st (datain self)))) (\<lambda>(lo, hi).
     let rhmean = nanmean (bmask (m_rh lo) (m_seo_SN lo));
         rhstd = mad_std (bmask (m_rh lo) (m_seo_SN lo));
         elmean = nanmean (map2 fdiv (bmask (map src_a (m_objects lo)) (m_seo_SN lo))
                                     (bmask (map src_b (m_objects lo)) (m_seo_SN lo)));
         sources_table = make_table lo;
         sourceb_table = make_table hi;
         out = datain self;
         d = st out
     in bind_err (setheadval ''RHALF'' rhmean
                    ''Mean half-power radius of stars (in pixels)'' d) (\<lambda>d.
        bind_err (setheadval ''RHALFSTD'' rhstd
                    ''STD of masked mean of half-power radius'' d) (\<lambda>d.
        bind_err (setheadval ''ELONG'' elmean ''Mean elong of accepted sources'' d) (\<lambda>d.
        let d = tableset sources_table ''Low Threshold Sources'' d;
            d = tableset sourceb_table ''High Threshold Sources'' d
        in bind_err (setheadval ''EXTRACT_THRESH'' (extractthersh args)
                       ''Extraction Thershold for Low Thershold Table'' d) (\<lambda>d.
           bind_err (setheadval ''BRIGHT_FACTOR'' (bfactor args)
                       ''Multiplier to create High Threshold Table'' d) (\<lambda>d.
           Inr (self\<lparr>dataout := Some out\<rparr>, st(out := d)))))))))"

text \<open>
  The flux measurement of one object, as lines 163-164 and 171-172 (166-167 and 173-175)
  make it: the Kron radius with \<open>r=6.0\<close>, then \<open>sum_ellipse\<close> at
  \<open>kfactor*kronrad\<close> with \<open>err=bkg_rms\<close> and \<open>subpix=1\<close>.
\<close>

definition kron_flux ::
  "sep_lib \<Rightarrow> image \<Rightarrow> image \<Rightarrow> npfloat \<Rightarrow> source \<Rightarrow> npfloat \<times> npfloat \<times> nat" where
  "kron_flux sep image_sub bkg_rms kfactor ob =
     (let kronrad = fst (sep_kron_radius sep image_sub (src_x ob) (src_y ob)
                           (src_a ob) (src_b ob) (src_theta ob) (Fin 6))
      in sep_sum_ellipse sep image_sub (src_x ob) (src_y ob) (src_a ob) (src_b ob)
           (src_theta ob) (fmul kfactor kronrad) bkg_rms 1)"

text \<open>The cuts of lines 223-224 (227-228) for one object with its flux and flux error.\<close>

definition cuts :: "source \<Rightarrow> npfloat \<Rightarrow> npfloat \<Rightarrow> bool" where
  "cuts ob f e \<longleftrightarrow>
     flt (fdiv (src_a ob) (src_b ob)) elim \<and> flt (fdiv f e) (Fin 1000)
     \<and> fne e (Fin 0) \<and> fne f (Fin 0)"

text \<open>
  The processing of one threshold as a single function of the threshold and of the
  deblending parameter handed to \<open>sep.extract\<close>: the statements that \<open>low_path\<close> and
  \<open>high_path\<close> have in common, written once. It serves to compare the two paths.
\<close>

definition measure_sources ::
  "sep_lib \<Rightarrow> (npfloat list \<Rightarrow> nat list) \<Rightarrow> image \<Rightarrow> image \<Rightarrow> npfloat \<Rightarrow> source list
     \<Rightarrow> error + measured" where
  "measure_sources sep argsort image_sub bkg_rms kfactor found =
     bind_err (rev_argsort argsort (map src_flux found)) (\<lambda>order0.
     bind_err (take_along_axis found order0) (\<lambda>obs.
     let kr = map (\<lambda>ob. fst (sep_kron_radius sep image_sub (src_x ob) (src_y ob)
                       (src_a ob) (src_b ob) (src_theta ob) (Fin 6))) obs;
         fl = map2 (\<lambda>ob k. sep_sum_ellipse sep image_sub (src_x ob) (src_y ob)
                       (src_a ob) (src_b ob) (src_theta ob) (fmul kfactor k) bkg_rms 1) obs kr;
         rm = map (\<lambda>ob. Fin (sqrt ((real_of_int (src_xmax ob - src_xmin ob) / 2)
                                       * (real_of_int (src_xmax ob - src_xmin ob) / 2)
                                     + (real_of_int (src_ymax ob - src_ymin ob) / 2)
                                       * (real_of_int (src_ymax ob - src_ymin ob) / 2)))) obs;
         hr = map2 (\<lambda>ob r. fst (sep_flux_radius sep image_sub (src_x ob) (src_y ob) r
                       (Fin 0.5))) obs rm
     in bind_err (rev_argsort argsort (map fst fl)) (\<lambda>order1.
        bind_err (take_along_axis (map fst fl) order1) (\<lambda>f.
        bind_err (take_along_axis (map (\<lambda>r. fst (snd r)) fl) order1) (\<lambda>e.
        bind_err (take_along_axis obs order1) (\<lambda>obs1.
        bind_err (take_along_axis hr order1) (\<lambda>hr1.
        Inr \<lparr>m_objects = obs1, m_flux_elip = f, m_fluxerr_elip = e, m_rh = hr1,
             m_seo_SN = map2 (\<and>) (map2 (\<and>) (map2 (\<and>)
                 (map (\<lambda>ob. flt (fdiv (src_a ob) (src_b ob)) elim) obs1)
                 (map (\<lambda>v. flt v (Fin 1000)) (map2 fdiv f e)))
                 (map (\<lambda>v. fne v (Fin 0)) e))
                 (map (\<lambda>v. fne v (Fin 0)) f)\<rparr>)))))))"

definition threshold_pipeline ::
  "sep_lib \<Rightarrow> (npfloat list \<Rightarrow> nat list) \<Rightarrow> image \<Rightarrow> image \<Rightarrow> npfloat \<Rightarrow> npfloat
     \<Rightarrow> nat option \<Rightarrow> error + measured" where
  "threshold_pipeline sep argsort image_sub bkg_rms kfactor thresh deblend_opt =
     measure_sources sep argsort image_sub bkg_rms kfactor
       (sep_extract sep image_sub thresh bkg_rms deblend_opt)"

section \<open>The flux calibration step (StepFluxCalSex)\<close>

text \<open>
  The rows of the two tables the step reads: the Source Extractor catalog (the columns
  the step uses) and the answer of the guide star catalog, with the magnitude and
  magnitude error columns of the image's filter. Running Source Extractor and querying
  the catalog service are input: \<open>run\<close> is modelled from the two tables on.
\<close>

record seo_row =
  FLUX_AUTO :: npfloat
  FLUXERR_AUTO :: npfloat
  FLUX_APER :: npfloat
  ALPHA_J2000 :: npfloat
  DELTA_J2000 :: npfloat

record gsc_row =
  gsc_ra :: npfloat
  gsc_dec :: npfloat
  gsc_mag :: npfloat
  gsc_magerr :: npfloat

text \<open>
  The two library functions of the fit. \<open>match_to_catalog_sky\<close> gives, for each
  coordinate of the first catalog, the position of the nearest coordinate of the second
  and the separation in degrees (or raises). \<open>minimize\<close> is
  \<open>scipy.optimize.minimize\<close>: from the objective and the start point to the point
  it returns as \<open>result["x"]\<close>.
\<close>

record fit_lib =
  match_to_catalog_sky ::
    "(npfloat \<times> npfloat) list \<Rightarrow> (npfloat \<times> npfloat) list \<Rightarrow> error + (nat \<times> npfloat) list"
  minimize :: "(npfloat \<times> npfloat \<Rightarrow> npfloat) \<Rightarrow> npfloat \<times> npfloat \<Rightarrow> npfloat \<times> npfloat"

text \<open>\<open>residual\<close> (lines 200-206).\<close>

definition residual ::
  "npfloat \<times> npfloat \<Rightarrow> npfloat list \<Rightarrow> npfloat list \<Rightarrow> npfloat list \<Rightarrow> npfloat" where
  "residual params x data errors =
     (let (m, c) = params;
          model = map (\<lambda>v. fadd (fmul m v) c) x;
          inv_sigma2 = map (\<lambda>e. fdiv (Fin 1) (fmul e e)) errors
      in fmul (Fin (- 0.5))
           (fsum (map2 fmul (map (\<lambda>v. fmul v v) (map2 fsub data model)) inv_sigma2)))"

text \<open>\<open>nll = lambda *args: -residual(*args)\<close> (line 176).\<close>

definition nll ::
  "npfloat \<times> npfloat \<Rightarrow> npfloat list \<Rightarrow> npfloat list \<Rightarrow> npfloat list \<Rightarrow> npfloat" where
  "nll params x data errors = fneg (residual params x data errors)"

text \<open>
  \<open>np.nanpercentile(image, q)\<close> over all pixels: NaN pixels are dropped, the rest is
  sorted, and the value at position \<open>q / 100 * (n - 1)\<close> is interpolated linearly
  between its two neighbours. \<open>q\<close> outside \<open>[0, 100]\<close> raises ValueError; with no
  pixel left the result is NaN.
\<close>

definition nanpercentile :: "image \<Rightarrow> real \<Rightarrow> error + npfloat" where
  "nanpercentile im q =
     (if q < 0 \<or> 100 < q then Inl ValueError
      else let ys = np_sort (filter (\<lambda>v. \<not> isnan v) (concat im)); n = length ys
           in if n = 0 then Inr NaN
              else let pos = q / 100 * real (n - 1);
                       lo = nat \<lfloor>pos\<rfloor>;
                       hi = min (lo + 1) (n - 1);
                       t = pos - real lo;
                       diff = fsub (ys ! hi) (ys ! lo)
                   in Inr (if t < 1 / 2 then fadd (ys ! lo) (fmul diff (Fin t))
                           else fsub (ys ! hi) (fmul diff (Fin (1 - t)))))"

record fluxcal_args =
  zeropercent :: real

definition fluxcal_defaults :: fluxcal_args where
  "fluxcal_defaults = \<lparr>zeropercent = 30\<rparr>"

text \<open>Lines 131-136: instrumental magnitudes, their errors, and the selection of stars.\<close>

definition seo_Mag :: "seo_row list \<Rightarrow> npfloat list" where
  "seo_Mag seo_catalog = map (\<lambda>r. fmul (Fin (- 2.5)) (flog10 (FLUX_AUTO r))) seo_catalog"

definition seo_MagErr :: "seo_row list \<Rightarrow> npfloat list" where
  "seo_MagErr seo_catalog =
     map (\<lambda>r. fdiv (fmul (Fin (2.5 / ln 10)) (FLUXERR_AUTO r)) (FLUX_AUTO r)) seo_catalog"

definition seo_SN :: "seo_row list \<Rightarrow> bool list" where
  "seo_SN seo_catalog =
     map (\<lambda>r. fgt (fdiv (FLUX_AUTO r) (FLUXERR_AUTO r)) (Fin 10)
              \<and> flt (fsub (FLUX_APER r) (FLUX_AUTO r)) (Fin 250)
              \<and> flt (fdiv (FLUX_AUTO r) (FLUXERR_AUTO r)) (Fin 1000)) seo_catalog"

text \<open>Lines 161-164: the catalog entries with a magnitude below 22 and above 0.\<close>

definition gsc_usable :: "gsc_row list \<Rightarrow> gsc_row list" where
  "gsc_usable query_table =
     bmask query_table (map (\<lambda>r. flt (gsc_mag r) (Fin 22) \<and> fgt (gsc_mag r) (Fin 0)) query_table)"

text \<open>Line 173: one pixel, in degrees.\<close>

definition dist_value :: "npfloat \<Rightarrow> npfloat" where
  "dist_value binning = fdiv (fmul (Fin (1 * 0.76)) binning) (Fin 3600)"

text \<open>
  Lines 168-178: the three arrays handed to the fit, in the order of \<open>args\<close>:
  \<open>GSC_Mag[d2d.value<dist_value]\<close>, \<open>seo_Mag[seo_SN][idx][d2d.value<dist_value]\<close>
  and \<open>eps_data\<close>. Indexing with \<open>idx\<close> raises IndexError for a position outside the
  selected stars, and a boolean mask of another length than the array raises IndexError.
\<close>

definition fit_arrays ::
  "fit_lib \<Rightarrow> npfloat \<Rightarrow> seo_row list \<Rightarrow> gsc_row list
     \<Rightarrow> error + npfloat list \<times> npfloat list \<times> npfloat list" where
  "fit_arrays lib binning seo_catalog query_table =
     (let gsc = gsc_usable query_table;
          GSC_Mag = map gsc_mag gsc;
          GSC_MagErr = map gsc_magerr gsc;
          seo_coords = map (\<lambda>r. (ALPHA_J2000 r, DELTA_J2000 r)) seo_catalog;
          GSC_coords = map (\<lambda>r. (gsc_ra r, gsc_dec r)) gsc
      in bind_err (match_to_catalog_sky lib GSC_coords (bmask seo_coords (seo_SN seo_catalog)))
           (\<lambda>matches.
         let idx = map fst matches;
             d2d = map snd matches;
             near = map (\<lambda>d. flt d (dist_value binning)) d2d
         in if length near \<noteq> length gsc then Inl IndexError
            else
         bind_err (take_along_axis (bmask (seo_MagErr seo_catalog) (seo_SN seo_catalog)) idx)
           (\<lambda>seo_MagErr_idx.
         bind_err (take_along_axis (bmask (seo_Mag seo_catalog) (seo_SN seo_catalog)) idx)
           (\<lambda>seo_Mag_idx.
         let eps_data = map fsqrt (map2 fadd
                          (map (\<lambda>v. fmul v v) (bmask GSC_MagErr near))
                          (map (\<lambda>v. fmul v v) (bmask seo_MagErr_idx near)))
         in Inr (bmask GSC_Mag near, bmask seo_Mag_idx near, eps_data)))))"

text \<open>\<open>bscale * (image - bzero)\<close>, elementwise (line 193).\<close>

definition rescale :: "npfloat \<Rightarrow> npfloat \<Rightarrow> image \<Rightarrow> image" where
  "rescale bscale bzero im = map (map (\<lambda>v. fmul bscale (fsub v bzero))) im"

text \<open>
  \<open>StepFluxCalSex.run\<close> from line 103 on, given the Source Extractor catalog and the
  catalog answer. The header keywords RA, DEC and FILTER only build the catalog query and
  select its columns; they are part of the input here.
\<close>

definition run_fluxcalsex ::
  "fit_lib \<Rightarrow> fluxcal_args \<Rightarrow> seo_row list \<Rightarrow> gsc_row list \<Rightarrow> step \<Rightarrow> store
     \<Rightarrow> error + step \<times> store" where
  "run_fluxcalsex lib args seo_catalog query_table self st =
     bind_err (getheadval (st (datain self)) ''XBIN'') (\<lambda>binning.
     bind_err (fit_arrays lib binning seo_catalog query_table) (\<lambda>(x, data, eps_data).
     let (m_ml, b_ml) = minimize lib (\<lambda>params. nll params x data eps_data) (Fin 1, Fin (- 2));
         out = datain self;
         d = st out
     in bind_err (setheadval ''PHOTZP'' (fneg b_ml)
                    ''Photometric zeropoint MAG=-2.5*log(data)+PHOTZP'' d) (\<lambda>d.
        bind_err (setheadval ''PHOTZPER'' (Fin 0)
                    ''Uncertainty of the photometric zeropoint'' d) (\<lambda>d.
        bind_err (nanpercentile (image d) (zeropercent args)) (\<lambda>bzero.
        let bscale = fmul (Fin 3631) (fpow10 (fdiv b_ml (Fin 2.5)));
            d = d\<lparr>image := rescale bscale bzero (image d)\<rparr>
        in Inr (self\<lparr>dataout := Some out\<rparr>, st(out := d)))))))"

section \<open>What numpy promises of \<open>argsort\<close>, and an instance\<close>

text \<open>
  \<open>np.argsort\<close> returns a permutation of the positions that puts the keys in
  ascending order, NaN last.
\<close>

definition argsort_ok :: "(npfloat list \<Rightarrow> nat list) \<Rightarrow> bool" where
  "argsort_ok argsort \<longleftrightarrow>
     (\<forall>keys. length (argsort keys) = length keys
           \<and> set (argsort keys) = {0..<length keys}
           \<and> sorted_wrt np_le (map (\<lambda>i. keys ! i) (argsort keys)))"

text \<open>
  An insertion sort of the positions: what numpy's default kind does on an array of at
  most 16 entries. A position goes after the positions whose keys are not greater.
\<close>

fun ins_index :: "npfloat list \<Rightarrow> nat \<Rightarrow> nat list \<Rightarrow> nat list" where
  "ins_index keys i [] = [i]"
| "ins_index keys i (j # js) =
     (if np_le (keys ! j) (keys ! i) then j # ins_index keys i js else i # j # js)"

definition insertion_argsort :: "npfloat list \<Rightarrow> nat list" where
  "insertion_argsort keys = foldl (\<lambda>acc i. ins_index keys i acc) [] [0..<length keys]"

section \<open>Stand-ins for the libraries, and concrete inputs\<close>

text \<open>
  A SEP stand-in driven by tables: \<open>found\<close> gives the objects \<open>extract\<close> reports for
  a threshold and a \<open>deblend_nthresh\<close>, \<open>flux_at\<close> the flux and flux error that
  \<open>sum_ellipse\<close> reports for the object at a given \<open>x\<close>. The background is zero with
  unit noise, every Kron radius and half-flux radius is 1.
\<close>

definition sep_stub ::
  "(npfloat \<Rightarrow> nat option \<Rightarrow> source list) \<Rightarrow> (npfloat \<Rightarrow> npfloat \<times> npfloat) \<Rightarrow> sep_lib" where
  "sep_stub found flux_at =
     \<lparr>sep_Background = (\<lambda>im maskthresh bw bh fw fh fthresh.
         (map (map (\<lambda>v. Fin 0)) im, map (map (\<lambda>v. Fin 1)) im)),
      sep_extract = (\<lambda>im thresh err dn. found thresh dn),
      sep_kron_radius = (\<lambda>im x y a b theta r. (Fin 1, 0)),
      sep_sum_ellipse = (\<lambda>im x y a b theta r err subpix.
         (fst (flux_at x), snd (flux_at x), 0)),
      sep_flux_radius = (\<lambda>im x y rmax frac. (Fin 1, 0))\<rparr>"

text \<open>A round object at \<open>(x, 1)\<close> with the given isophotal flux.\<close>

definition round_source :: "real \<Rightarrow> real \<Rightarrow> source" where
  "round_source x isoflux =
     \<lparr>src_x = Fin x, src_y = Fin 1, src_a = Fin 1, src_b = Fin 1, src_theta = Fin 0,
      src_xmin = \<lfloor>x\<rfloor> - 1, src_xmax = \<lfloor>x\<rfloor> + 1, src_ymin = 0, src_ymax = 2,
      src_flux = Fin isoflux\<rparr>"

text \<open>
  Three objects at \<open>x = 1, 2, 3\<close>, found at every threshold, in descending order of
  isophotal flux. The first two have the same elliptical flux 5, the third has the
  negative elliptical flux -5; every flux error is 1.
\<close>

definition three_sources :: "npfloat \<Rightarrow> nat option \<Rightarrow> source list" where
  "three_sources thresh dn = [round_source 1 30, round_source 2 20, round_source 3 10]"

definition three_fluxes :: "npfloat \<Rightarrow> npfloat \<times> npfloat" where
  "three_fluxes x = (if x = Fin 3 then (Fin (- 5), Fin 1) else (Fin 5, Fin 1))"

text \<open>Nothing is found, at any threshold.\<close>

definition no_sources :: "npfloat \<Rightarrow> nat option \<Rightarrow> source list" where
  "no_sources thresh dn = []"

text \<open>
  A blend that \<open>extract\<close> separates into two objects when it is called with
  \<open>deblend_nthresh=256\<close> and reports as one object otherwise.
\<close>

definition blended_sources :: "npfloat \<Rightarrow> nat option \<Rightarrow> source list" where
  "blended_sources thresh dn =
     (if dn = Some 256 then [round_source 1 30, round_source 2 20] else [round_source 1 50])"

text \<open>A data object with the binning keyword and a one-pixel image, at address 0.\<close>

definition data0 :: pipedata where
  "data0 = \<lparr>header = [''XBIN'' \<mapsto> (Fin 1, '''')], image = [[Fin 1]], tables = Map.empty\<rparr>"

definition store0 :: store where
  "store0 = (\<lambda>r. data0)"

definition step0 :: step where
  "step0 = \<lparr>datain = 0, dataout = None\<rparr>"

text \<open>
  A SEP stand-in that finds the three objects and whose \<open>sum_ellipse\<close> reports what it
  was called with: the radius \<open>r\<close> as the flux and \<open>subpix\<close> as the flux error.
\<close>

definition sep_probe :: sep_lib where
  "sep_probe =
     (sep_stub three_sources three_fluxes)
       \<lparr>sep_sum_ellipse := (\<lambda>im x y a b theta r err subpix. (r, Fin (real subpix), 0))\<rparr>"

text \<open>
  What SEP documents of \<open>subpix\<close>: the subpixel sampling factor, with \<open>0\<close> for the
  exact overlap of pixel and aperture, and \<open>5\<close> when the call does not pass it. A pixel
  at the edge of the aperture is sampled at \<open>subpix * subpix\<close> points; \<open>None\<close> stands
  for the exact overlap.
\<close>

definition subpix_samples :: "nat \<Rightarrow> nat option" where
  "subpix_samples subpix = (if subpix = 0 then None else Some (subpix * subpix))"

definition subpix_default :: nat where
  "subpix_default = 5"

section \<open>Reading a run's result\<close>

text \<open>
  What a caller sees after \<open>run\<close>: the table, the keyword and the image of the object
  that \<open>self.dataout\<close> refers to. There is none when the run raised.
\<close>

definition result_table :: "error + step \<times> store \<Rightarrow> string \<Rightarrow> table option" where
  "result_table r name =
     (case r of Inl e \<Rightarrow> None
      | Inr (self', st') \<Rightarrow>
          (case dataout self' of None \<Rightarrow> None | Some out \<Rightarrow> tables (st' out) name))"

definition result_headval :: "error + step \<times> store \<Rightarrow> string \<Rightarrow> npfloat option" where
  "result_headval r key =
     (case r of Inl e \<Rightarrow> None
      | Inr (self', st') \<Rightarrow>
          (case dataout self' of None \<Rightarrow> None
           | Some out \<Rightarrow> map_option fst (header (st' out) key)))"

definition result_image :: "error + step \<times> store \<Rightarrow> image option" where
  "result_image r =
     (case r of Inl e \<Rightarrow> None
      | Inr (self', st') \<Rightarrow>
          (case dataout self' of None \<Rightarrow> None | Some out \<Rightarrow> Some (image (st' out))))"

text \<open>
  A stable sort into descending order of the key, for comparison with the order of the
  tables: an entry goes after the entries whose keys are not smaller.
\<close>

fun insert_desc :: "'a \<times> npfloat \<Rightarrow> ('a \<times> npfloat) list \<Rightarrow> ('a \<times> npfloat) list" where
  "insert_desc r [] = [r]"
| "insert_desc r (s # ss) =
     (if np_le (snd r) (snd s) then s # insert_desc r ss else r # s # ss)"

definition stable_sort_desc :: "('a \<times> npfloat) list \<Rightarrow> ('a \<times> npfloat) list" where
  "stable_sort_desc rows = foldl (\<lambda>acc r. insert_desc r acc) [] rows"

section \<open>The objects the runs leave behind\<close>

text \<open>
  Lines 294-300 of the extraction step, applied to the object at the output address, when
  every keyword is taken. The values of the three statistics are named, since whether
  they are finite decides whether the run completes.
\<close>

definition srcext_rhmean :: "measured \<Rightarrow> npfloat" where
  "srcext_rhmean lo = nanmean (bmask (m_rh lo) (m_seo_SN lo))"

definition srcext_rhstd :: "measured \<Rightarrow> npfloat" where
  "srcext_rhstd lo = mad_std (bmask (m_rh lo) (m_seo_SN lo))"

definition srcext_elmean :: "measured \<Rightarrow> npfloat" where
  "srcext_elmean lo =
     nanmean (map2 fdiv (bmask (map src_a (m_objects lo)) (m_seo_SN lo))
                        (bmask (map src_b (m_objects lo)) (m_seo_SN lo)))"


definition srcext_out :: "srcext_args \<Rightarrow> measured \<Rightarrow> measured \<Rightarrow> pipedata \<Rightarrow> pipedata" where
  "srcext_out args lo hi d =
     put_header ''BRIGHT_FACTOR'' (bfactor args) ''Multiplier to create High Threshold Table''
      (put_header ''EXTRACT_THRESH'' (extractthersh args)
         ''Extraction Thershold for Low Thershold Table''
      (tableset (make_table hi) ''High Threshold Sources''
      (tableset (make_table lo) ''Low Threshold Sources''
      (put_header ''ELONG''
         (nanmean (map2 fdiv (bmask (map src_a (m_objects lo)) (m_seo_SN lo))
                             (bmask (map src_b (m_objects lo)) (m_seo_SN lo))))
         ''Mean elong of accepted sources''
      (put_header ''RHALFSTD'' (mad_std (bmask (m_rh lo) (m_seo_SN lo)))
         ''STD of masked mean of half-power radius''
      (put_header ''RHALF'' (nanmean (bmask (m_rh lo) (m_seo_SN lo)))
         ''Mean half-power radius of stars (in pixels)'' d))))))"

text \<open>
  Lines 185-193 of the flux calibration step, applied to the object at the output
  address, for the fitted intercept \<open>b_ml\<close> and the percentile \<open>bzero\<close>.
\<close>

definition fluxcal_out :: "npfloat \<Rightarrow> npfloat \<Rightarrow> pipedata \<Rightarrow> pipedata" where
  "fluxcal_out b_ml bzero d =
     (let d = put_header ''PHOTZP'' (fneg b_ml)
                ''Photometric zeropoint MAG=-2.5*log(data)+PHOTZP'' d;
          d = put_header ''PHOTZPER'' (Fin 0) ''Uncertainty of the photometric zeropoint'' d;
          bscale = fmul (Fin 3631) (fpow10 (fdiv b_ml (Fin 2.5)))
      in d\<lparr>image := rescale bscale bzero (image d)\<rparr>)"

section \<open>Stand-ins for the fit, and concrete catalogs\<close>

text \<open>
  A matcher that answers from a table, and a minimiser that returns its start point, as
  \<open>scipy.optimize.minimize\<close> does when the gradient of the objective is zero there.
\<close>

definition fit_stub :: "(nat \<times> npfloat) list \<Rightarrow> fit_lib" where
  "fit_stub answer =
     \<lparr>match_to_catalog_sky = (\<lambda>gsc seo. Inr answer),
      minimize = (\<lambda>objective x0. x0)\<rparr>"

text \<open>
  One star in the Source Extractor catalog with flux 1 (instrumental magnitude 0) at a
  signal-to-noise ratio of 20, and one usable catalog entry of magnitude 2 matched to it
  at a separation of 0.0001 degrees, below the 0.76 / 3600 degrees of one unbinned pixel.
\<close>

definition one_star :: "seo_row list" where
  "one_star = [\<lparr>FLUX_AUTO = Fin 1, FLUXERR_AUTO = Fin 0.05, FLUX_APER = Fin 1,
                ALPHA_J2000 = Fin 10, DELTA_J2000 = Fin 20\<rparr>]"

definition one_entry :: "gsc_row list" where
  "one_entry = [\<lparr>gsc_ra = Fin 10, gsc_dec = Fin 20, gsc_mag = Fin 2, gsc_magerr = Fin 0.1\<rparr>]"

definition one_match :: "(nat \<times> npfloat) list" where
  "one_match = [(0, Fin 0.0001)]"

text \<open>
  The same star, and three catalog entries: the second is matched at 0.01 degrees, which
  is more than one pixel, and the third has magnitude 25 and is not usable.
\<close>

definition three_entries :: "gsc_row list" where
  "three_entries =
     [\<lparr>gsc_ra = Fin 10, gsc_dec = Fin 20, gsc_mag = Fin 2, gsc_magerr = Fin 0.1\<rparr>,
      \<lparr>gsc_ra = Fin 10.01, gsc_dec = Fin 20, gsc_mag = Fin 5, gsc_magerr = Fin 0.1\<rparr>,
      \<lparr>gsc_ra = Fin 11, gsc_dec = Fin 21, gsc_mag = Fin 25, gsc_magerr = Fin 0.1\<rparr>]"

definition two_matches :: "(nat \<times> npfloat) list" where
  "two_matches = [(0, Fin 0.0001), (0, Fin 0.01)]"

text \<open>
  The weighted sum of squared residuals, over matched pairs of catalog magnitude, catalog
  error, instrumental magnitude and instrumental error. \<open>wssr_inst_on_cat\<close> is that of
  the model \<open>instrumental = m * catalog + b\<close>; \<open>wssr_cat_on_inst\<close>, written from the
  specification, is that of the model \<open>catalog = m * instrumental + b\<close>. The weights are
  the inverse of the combined variance \<open>catalog_err\<^sup>2 + instrumental_err\<^sup>2\<close>.
\<close>

definition wssr_inst_on_cat :: "real \<Rightarrow> real \<Rightarrow> (real \<times> real \<times> real \<times> real) list \<Rightarrow> real" where
  "wssr_inst_on_cat m b pairs =
     (\<Sum>(cat, cat_err, inst, inst_err) \<leftarrow> pairs.
        (inst - (m * cat + b)) * (inst - (m * cat + b)) / (cat_err * cat_err + inst_err * inst_err))"

definition wssr_cat_on_inst :: "real \<Rightarrow> real \<Rightarrow> (real \<times> real \<times> real \<times> real) list \<Rightarrow> real" where
  "wssr_cat_on_inst m b pairs =
     (\<Sum>(cat, cat_err, inst, inst_err) \<leftarrow> pairs.
        (cat - (m * inst + b)) * (cat - (m * inst + b)) / (cat_err * cat_err + inst_err * inst_err))"

text \<open>The three arrays of the fit for such pairs, as \<open>fit_arrays\<close> builds them.\<close>

definition pairs_x :: "(real \<times> real \<times> real \<times> real) list \<Rightarrow> npfloat list" where
  "pairs_x pairs = map (\<lambda>(cat, cat_err, inst, inst_err). Fin cat) pairs"

definition pairs_data :: "(real \<times> real \<times> real \<times> real) list \<Rightarrow> npfloat list" where
  "pairs_data pairs = map (\<lambda>(cat, cat_err, inst, inst_err). Fin inst) pairs"

definition pairs_eps :: "(real \<times> real \<times> real \<times> real) list \<Rightarrow> npfloat list" where
  "pairs_eps pairs =
     map fsqrt (map2 fadd
       (map (\<lambda>v. fmul v v) (map (\<lambda>(cat, cat_err, inst, inst_err). Fin cat_err) pairs))
       (map (\<lambda>v. fmul v v) (map (\<lambda>(cat, cat_err, inst, inst_err). Fin inst_err) pairs)))"

text \<open>
  Two matched pairs whose catalog magnitudes 4 and 5 are the instrumental magnitudes 1
  and 2 plus the zero point 3; the combined variance of each is 1.
\<close>

definition two_pairs :: "(real \<times> real \<times> real \<times> real) list" where
  "two_pairs = [(4, 1, 1, 0), (5, 1, 2, 0)]"

section \<open>Basic facts\<close>

subsection \<open>Both thresholds are one function\<close>

lemma take_along_axis_rev: "take_along_axis ind (arange_down (length ind)) = Inr (rev ind)"
  by (simp add: take_along_axis_def arange_down_def rev_map [symmetric] map_nth)

lemma rev_argsort_eq: "rev_argsort argsort keys = Inr (rev (argsort keys))"
  by (simp add: rev_argsort_def Let_def take_along_axis_rev)

lemma map2_same: "map2 f (map g xs) (map h xs) = map (\<lambda>x. f (g x) (h x)) xs"
  by (induction xs) auto

lemma map2_id_left: "map2 f xs (map h xs) = map (\<lambda>x. f x (h x)) xs"
  by (induction xs) auto

lemma low_path_pipeline:
  "low_path sep argsort image_sub bkg_rms extract_thresh deblend_nthresh kfactor =
   threshold_pipeline sep argsort image_sub bkg_rms kfactor extract_thresh (Some deblend_nthresh)"
  by (simp add: low_path_def threshold_pipeline_def measure_sources_def Let_def map2_same map2_id_left)

lemma high_path_pipeline:
  "high_path sep argsort image_sub bkg_rms extract_thresh bright_factor kfactor =
   threshold_pipeline sep argsort image_sub bkg_rms kfactor (fmul extract_thresh bright_factor) None"
  by (simp add: high_path_def threshold_pipeline_def measure_sources_def Let_def map2_same map2_id_left)

subsection \<open>The insertion sort of positions keeps numpy's promise\<close>

lemma np_le_total: "np_le a b \<or> np_le b a"
  by (cases a; cases b) auto

lemma np_le_trans: "np_le a b \<Longrightarrow> np_le b c \<Longrightarrow> np_le a c"
  by (cases a; cases b; cases c) auto

lemma set_ins_index: "set (ins_index keys i js) = insert i (set js)"
  by (induction js) auto

lemma length_ins_index: "length (ins_index keys i js) = Suc (length js)"
  by (induction js) auto

lemma sorted_ins_index:
  "sorted_wrt np_le (map (\<lambda>i. keys ! i) js) \<Longrightarrow>
   sorted_wrt np_le (map (\<lambda>i. keys ! i) (ins_index keys i js))"
proof (induction js)
  case Nil
  then show ?case by simp
next
  case (Cons j js)
  show ?case
  proof (cases "np_le (keys ! j) (keys ! i)")
    case True
    have "\<forall>k \<in> set (ins_index keys i js). np_le (keys ! j) (keys ! k)"
      using Cons.prems True by (auto simp: set_ins_index)
    with Cons True show ?thesis by simp
  next
    case False
    then have le: "np_le (keys ! i) (keys ! j)" using np_le_total by blast
    have "\<forall>k \<in> set js. np_le (keys ! i) (keys ! k)"
      using Cons.prems le by (auto intro: np_le_trans)
    with Cons.prems False le show ?thesis by simp
  qed
qed

lemma foldl_ins_index:
  "length (foldl (\<lambda>acc i. ins_index keys i acc) acc is) = length acc + length is
   \<and> set (foldl (\<lambda>acc i. ins_index keys i acc) acc is) = set acc \<union> set is
   \<and> (sorted_wrt np_le (map (\<lambda>i. keys ! i) acc) \<longrightarrow>
      sorted_wrt np_le (map (\<lambda>i. keys ! i) (foldl (\<lambda>acc i. ins_index keys i acc) acc is)))"
proof (induction "is" arbitrary: acc)
  case Nil
  then show ?case by simp
next
  case (Cons i "is")
  show ?case
    using Cons.IH [of "ins_index keys i acc"]
    by (auto simp: length_ins_index set_ins_index sorted_ins_index)
qed

lemma argsort_ok_insertion: "argsort_ok insertion_argsort"
  unfolding argsort_ok_def insertion_argsort_def
  using foldl_ins_index [of _ "[]"] by auto


subsection \<open>One threshold, in terms of the positions kept\<close>

lemma bind_err_Inr_iff: "bind_err m f = Inr r \<longleftrightarrow> (\<exists>v. m = Inr v \<and> f v = Inr r)"
  by (cases m) (auto simp: bind_err_def)

lemma bind_err_Inr [simp]: "bind_err (Inr v) f = f v"
  by (simp add: bind_err_def)

lemma bind_err_Inl [simp]: "bind_err (Inl e) f = Inl e"
  by (simp add: bind_err_def)

lemma take_along_axis_Inr:
  "take_along_axis xs idx = Inr ys \<longleftrightarrow> (\<forall>i \<in> set idx. i < length xs) \<and> ys = map (\<lambda>i. xs ! i) idx"
  by (auto simp: take_along_axis_def)

lemma take_along_axis_map:
  "take_along_axis (map f xs) idx =
     (if \<forall>i \<in> set idx. i < length xs then Inr (map (\<lambda>i. f (xs ! i)) idx) else Inl IndexError)"
  by (auto simp: take_along_axis_def)

lemma mask_pointwise:
  "map2 (\<and>) (map2 (\<and>) (map2 (\<and>)
       (map (\<lambda>ob. flt (fdiv (src_a ob) (src_b ob)) elim) (map g idx))
       (map (\<lambda>v. flt v (Fin 1000)) (map2 fdiv (map f idx) (map e idx))))
       (map (\<lambda>v. fne v (Fin 0)) (map e idx)))
       (map (\<lambda>v. fne v (Fin 0)) (map f idx))
   = map (\<lambda>i. cuts (g i) (f i) (e i)) idx"
  by (induction idx) (auto simp: cuts_def)

lemma measure_sources_alt0:
  "measure_sources sep argsort image_sub bkg_rms kfactor found =
     bind_err (take_along_axis found (rev (argsort (map src_flux found)))) (\<lambda>obs.
       let kf = kron_flux sep image_sub bkg_rms kfactor;
           idx = rev (argsort (map (\<lambda>ob. fst (kf ob)) obs))
       in if \<forall>i \<in> set idx. i < length obs
          then Inr \<lparr>m_objects = map (\<lambda>i. obs ! i) idx,
                    m_flux_elip = map (\<lambda>i. fst (kf (obs ! i))) idx,
                    m_fluxerr_elip = map (\<lambda>i. fst (snd (kf (obs ! i)))) idx,
                    m_rh = map (\<lambda>i. fst (sep_flux_radius sep image_sub (src_x (obs ! i))
                              (src_y (obs ! i))
                              (Fin (sqrt ((real_of_int (src_xmax (obs ! i) - src_xmin (obs ! i)) / 2)
                                       * (real_of_int (src_xmax (obs ! i) - src_xmin (obs ! i)) / 2)
                                     + (real_of_int (src_ymax (obs ! i) - src_ymin (obs ! i)) / 2)
                                       * (real_of_int (src_ymax (obs ! i) - src_ymin (obs ! i)) / 2))))
                              (Fin 0.5))) idx,
                    m_seo_SN = map2 (\<and>) (map2 (\<and>) (map2 (\<and>)
                       (map (\<lambda>ob. flt (fdiv (src_a ob) (src_b ob)) elim) (map (\<lambda>i. obs ! i) idx))
                       (map (\<lambda>v. flt v (Fin 1000))
                          (map2 fdiv (map (\<lambda>i. fst (kf (obs ! i))) idx)
                                     (map (\<lambda>i. fst (snd (kf (obs ! i)))) idx))))
                       (map (\<lambda>v. fne v (Fin 0)) (map (\<lambda>i. fst (snd (kf (obs ! i)))) idx)))
                       (map (\<lambda>v. fne v (Fin 0)) (map (\<lambda>i. fst (kf (obs ! i))) idx))\<rparr>
          else Inl IndexError)"
proof (cases "take_along_axis found (rev (argsort (map src_flux found)))")
  case (Inl e)
  then show ?thesis
    by (simp add: measure_sources_def rev_argsort_eq)
next
  case (Inr obs)
  have fl: "map2 (\<lambda>ob k. sep_sum_ellipse sep image_sub (src_x ob) (src_y ob)
                       (src_a ob) (src_b ob) (src_theta ob) (fmul kfactor k) bkg_rms 1) obs
              (map (\<lambda>ob. fst (sep_kron_radius sep image_sub (src_x ob) (src_y ob)
                       (src_a ob) (src_b ob) (src_theta ob) (Fin 6))) obs)
            = map (kron_flux sep image_sub bkg_rms kfactor) obs"
    by (simp add: map2_id_left kron_flux_def)
  show ?thesis
    unfolding measure_sources_def rev_argsort_eq Inr bind_err_Inr Let_def fl
    unfolding map_map o_def take_along_axis_map map2_id_left
    by (auto simp add: take_along_axis_def o_def)
qed

lemmas measure_sources_alt = measure_sources_alt0 [unfolded mask_pointwise]

lemma bmask_map_map: "bmask (map f xs) (map p xs) = map f (filter p xs)"
  by (induction xs) (auto simp: bmask_def)

lemma zip3_map: "zip (map f xs) (zip (map g xs) (map h xs)) = map (\<lambda>x. (f x, g x, h x)) xs"
  by (induction xs) auto

lemma flt_not_nan: "flt a b \<Longrightarrow> \<not> isnan a \<and> \<not> isnan b"
  by (cases a; cases b) auto

lemma fdiv_not_nan: "\<not> isnan (fdiv a b) \<Longrightarrow> \<not> isnan a \<and> \<not> isnan b"
  by (cases a; cases b) auto

lemma cuts_not_nan: "cuts ob f e \<Longrightarrow> \<not> isnan f"
  unfolding cuts_def using flt_not_nan fdiv_not_nan by blast

lemma np_le_fge: "np_le b a \<Longrightarrow> \<not> isnan a \<Longrightarrow> \<not> isnan b \<Longrightarrow> fge a b"
  by (cases a; cases b) (auto simp: fge_def)

text \<open>The measured record in terms of the positions kept.\<close>

lemma measure_sources_Inr:
  assumes "measure_sources sep argsort image_sub bkg_rms kfactor found = Inr m"
  obtains obs idx where
    "take_along_axis found (rev (argsort (map src_flux found))) = Inr obs"
    "idx = rev (argsort (map (\<lambda>ob. fst (kron_flux sep image_sub bkg_rms kfactor ob)) obs))"
    "\<forall>i \<in> set idx. i < length obs"
    "m_objects m = map (\<lambda>i. obs ! i) idx"
    "m_flux_elip m = map (\<lambda>i. fst (kron_flux sep image_sub bkg_rms kfactor (obs ! i))) idx"
    "m_fluxerr_elip m = map (\<lambda>i. fst (snd (kron_flux sep image_sub bkg_rms kfactor (obs ! i)))) idx"
    "length (m_rh m) = length idx"
    "m_seo_SN m = map (\<lambda>i. cuts (obs ! i) (fst (kron_flux sep image_sub bkg_rms kfactor (obs ! i)))
                       (fst (snd (kron_flux sep image_sub bkg_rms kfactor (obs ! i))))) idx"
proof -
  from assms obtain obs where
    obs: "take_along_axis found (rev (argsort (map src_flux found))) = Inr obs"
    and rest: "(let kf = kron_flux sep image_sub bkg_rms kfactor;
           idx = rev (argsort (map (\<lambda>ob. fst (kf ob)) obs))
       in if \<forall>i \<in> set idx. i < length obs
          then Inr \<lparr>m_objects = map (\<lambda>i. obs ! i) idx,
                    m_flux_elip = map (\<lambda>i. fst (kf (obs ! i))) idx,
                    m_fluxerr_elip = map (\<lambda>i. fst (snd (kf (obs ! i)))) idx,
                    m_rh = map (\<lambda>i. fst (sep_flux_radius sep image_sub (src_x (obs ! i))
                              (src_y (obs ! i))
                              (Fin (sqrt ((real_of_int (src_xmax (obs ! i) - src_xmin (obs ! i)) / 2)
                                       * (real_of_int (src_xmax (obs ! i) - src_xmin (obs ! i)) / 2)
                                     + (real_of_int (src_ymax (obs ! i) - src_ymin (obs ! i)) / 2)
                                       * (real_of_int (src_ymax (obs ! i) - src_ymin (obs ! i)) / 2))))
                              (Fin 0.5))) idx,
                    m_seo_SN = map (\<lambda>i. cuts (obs ! i) (fst (kf (obs ! i)))
                                        (fst (snd (kf (obs ! i))))) idx\<rparr>
          else Inl IndexError) = Inr m"
    unfolding measure_sources_alt bind_err_Inr_iff by blast
  define idx where "idx = rev (argsort (map (\<lambda>ob. fst (kron_flux sep image_sub bkg_rms kfactor ob)) obs))"
  from rest have valid: "\<forall>i \<in> set idx. i < length obs"
    unfolding Let_def idx_def by (auto split: if_splits)
  from rest valid have m: "m = \<lparr>m_objects = map (\<lambda>i. obs ! i) idx,
                    m_flux_elip = map (\<lambda>i. fst (kron_flux sep image_sub bkg_rms kfactor (obs ! i))) idx,
                    m_fluxerr_elip = map (\<lambda>i. fst (snd (kron_flux sep image_sub bkg_rms kfactor (obs ! i)))) idx,
                    m_rh = map (\<lambda>i. fst (sep_flux_radius sep image_sub (src_x (obs ! i))
                              (src_y (obs ! i))
                              (Fin (sqrt ((real_of_int (src_xmax (obs ! i) - src_xmin (obs ! i)) / 2)
                                       * (real_of_int (src_xmax (obs ! i) - src_xmin (obs ! i)) / 2)
                                     + (real_of_int (src_ymax (obs ! i) - src_ymin (obs ! i)) / 2)
                                       * (real_of_int (src_ymax (obs ! i) - src_ymin (obs ! i)) / 2))))
                              (Fin 0.5))) idx,
                    m_seo_SN = map (\<lambda>i. cuts (obs ! i) (fst (kron_flux sep image_sub bkg_rms kfactor (obs ! i)))
                                        (fst (snd (kron_flux sep image_sub bkg_rms kfactor (obs ! i))))) idx\<rparr>"
    unfolding Let_def idx_def by (auto split: if_splits)
  show thesis
    by (rule that [OF obs idx_def valid]) (simp_all add: m)
qed

text \<open>Rows, mask and table of a measured record.\<close>

lemma measured_rows:
  assumes "measure_sources sep argsort image_sub bkg_rms kfactor found = Inr m"
  shows "length (m_flux_elip m) = length (m_objects m)"
    and "length (m_fluxerr_elip m) = length (m_objects m)"
    and "length (m_rh m) = length (m_objects m)"
    and "m_seo_SN m = map (\<lambda>(ob, f, e). cuts ob f e)
           (zip (m_objects m) (zip (m_flux_elip m) (m_fluxerr_elip m)))"
proof -
  from assms obtain obs idx where
    "m_objects m = map (\<lambda>i. obs ! i) idx"
    "m_flux_elip m = map (\<lambda>i. fst (kron_flux sep image_sub bkg_rms kfactor (obs ! i))) idx"
    "m_fluxerr_elip m = map (\<lambda>i. fst (snd (kron_flux sep image_sub bkg_rms kfactor (obs ! i)))) idx"
    "length (m_rh m) = length idx"
    "m_seo_SN m = map (\<lambda>i. cuts (obs ! i) (fst (kron_flux sep image_sub bkg_rms kfactor (obs ! i)))
                       (fst (snd (kron_flux sep image_sub bkg_rms kfactor (obs ! i))))) idx"
    by (rule measure_sources_Inr)
  then show "length (m_flux_elip m) = length (m_objects m)"
    and "length (m_fluxerr_elip m) = length (m_objects m)"
    and "length (m_rh m) = length (m_objects m)"
    and "m_seo_SN m = map (\<lambda>(ob, f, e). cuts ob f e)
           (zip (m_objects m) (zip (m_flux_elip m) (m_fluxerr_elip m)))"
    by (simp_all add: zip3_map)
qed

lemma measured_kron_flux:
  assumes "measure_sources sep argsort image_sub bkg_rms kfactor found = Inr m"
    and "k < length (m_objects m)"
  shows "m_flux_elip m ! k = fst (kron_flux sep image_sub bkg_rms kfactor (m_objects m ! k))"
    and "m_fluxerr_elip m ! k = fst (snd (kron_flux sep image_sub bkg_rms kfactor (m_objects m ! k)))"
    and "m_objects m ! k \<in> set found"
proof -
  from assms(1) obtain obs idx where
    obs: "take_along_axis found (rev (argsort (map src_flux found))) = Inr obs"
    and valid: "\<forall>i \<in> set idx. i < length obs"
    and m: "m_objects m = map (\<lambda>i. obs ! i) idx"
    "m_flux_elip m = map (\<lambda>i. fst (kron_flux sep image_sub bkg_rms kfactor (obs ! i))) idx"
    "m_fluxerr_elip m = map (\<lambda>i. fst (snd (kron_flux sep image_sub bkg_rms kfactor (obs ! i)))) idx"
    by (rule measure_sources_Inr)
  from assms(2) m have k: "k < length idx" by simp
  with m show "m_flux_elip m ! k = fst (kron_flux sep image_sub bkg_rms kfactor (m_objects m ! k))"
    and "m_fluxerr_elip m ! k = fst (snd (kron_flux sep image_sub bkg_rms kfactor (m_objects m ! k)))"
    by simp_all
  from k valid have "idx ! k < length obs" by simp
  moreover from obs have "set obs \<subseteq> set found"
    by (auto simp: take_along_axis_Inr)
  ultimately show "m_objects m ! k \<in> set found"
    using m k by (auto simp: subset_iff)
qed

lemma measured_sorted:
  assumes ok: "argsort_ok argsort"
    and "measure_sources sep argsort image_sub bkg_rms kfactor found = Inr m"
  shows "sorted_wrt (\<lambda>a b. np_le b a) (m_flux_elip m)"
proof -
  from assms(2) obtain obs idx where
    idx: "idx = rev (argsort (map (\<lambda>ob. fst (kron_flux sep image_sub bkg_rms kfactor ob)) obs))"
    and valid: "\<forall>i \<in> set idx. i < length obs"
    and f: "m_flux_elip m = map (\<lambda>i. fst (kron_flux sep image_sub bkg_rms kfactor (obs ! i))) idx"
    by (rule measure_sources_Inr)
  define keys where "keys = map (\<lambda>ob. fst (kron_flux sep image_sub bkg_rms kfactor ob)) obs"
  from valid have "m_flux_elip m = map (\<lambda>i. keys ! i) idx"
    by (simp add: f keys_def)
  also have "\<dots> = rev (map (\<lambda>i. keys ! i) (argsort keys))"
    by (simp add: idx keys_def rev_map)
  finally have "m_flux_elip m = rev (map (\<lambda>i. keys ! i) (argsort keys))" .
  moreover from ok have "sorted_wrt np_le (map (\<lambda>i. keys ! i) (argsort keys))"
    by (simp add: argsort_ok_def)
  ultimately show ?thesis
    by (simp add: sorted_wrt_rev)
qed

lemma map_mid_zip3:
  "length ys = length xs \<Longrightarrow> length zs = length xs \<Longrightarrow>
   map (\<lambda>(a, b, c). b) (zip xs (zip ys zs)) = ys"
  by (rule nth_equalityI) simp_all

lemma table_flux_sorted:
  assumes ok: "argsort_ok argsort"
    and ms: "measure_sources sep argsort image_sub bkg_rms kfactor found = Inr m"
  shows "sorted_wrt fge (col_Flux (make_table m))"
proof -
  have srt: "sorted_wrt (\<lambda>a b. np_le b a) (m_flux_elip m)"
    using ok ms by (rule measured_sorted)
  have mask: "m_seo_SN m = map (\<lambda>(ob, f, e). cuts ob f e)
           (zip (m_objects m) (zip (m_flux_elip m) (m_fluxerr_elip m)))"
    using ms by (rule measured_rows)
  have len: "length (m_flux_elip m) = length (m_objects m)"
     "length (m_fluxerr_elip m) = length (m_objects m)"
    using ms by (rule measured_rows)+
  define rows where "rows = zip (m_objects m) (zip (m_flux_elip m) (m_fluxerr_elip m))"
  have fl: "m_flux_elip m = map (\<lambda>(ob, f, e). f) rows"
    using len by (simp add: rows_def map_mid_zip3)
  have col: "col_Flux (make_table m) = map (\<lambda>(ob, f, e). f) (filter (\<lambda>(ob, f, e). cuts ob f e) rows)"
    unfolding make_table_def mask rows_def [symmetric]
    by (simp add: fl bmask_map_map)
  have "sorted_wrt (\<lambda>r s. np_le ((\<lambda>(ob, f, e). f) s) ((\<lambda>(ob, f, e). f) r)) rows"
    using srt unfolding fl sorted_wrt_map .
  then have "sorted_wrt (\<lambda>r s. np_le ((\<lambda>(ob, f, e). f) s) ((\<lambda>(ob, f, e). f) r))
               (filter (\<lambda>(ob, f, e). cuts ob f e) rows)"
    by (rule sorted_wrt_filter)
  then have "sorted_wrt (\<lambda>r s. fge ((\<lambda>(ob, f, e). f) r) ((\<lambda>(ob, f, e). f) s))
               (filter (\<lambda>(ob, f, e). cuts ob f e) rows)"
    by (rule sorted_wrt_mono_rel [rotated]) (auto intro!: np_le_fge dest: cuts_not_nan)
  then show ?thesis
    unfolding col sorted_wrt_map .
qed

subsection \<open>The extraction run, and its value on the stand-in\<close>

lemma insertion_argsort_three: "insertion_argsort [a, b, c] = ins_index [a,b,c] 2 (ins_index [a,b,c] 1 [0])"
  by (simp add: insertion_argsort_def upt_rec)

lemma take_along_axis_simps: "take_along_axis xs [] = Inr []"
  "take_along_axis xs (i # is) = (if i < length xs then bind_err (take_along_axis xs is) (\<lambda>ys. Inr (xs ! i # ys)) else Inl IndexError)"
  by (auto simp: take_along_axis_def)

lemma three_measured:
  "measure_sources (sep_stub three_sources three_fluxes) insertion_argsort im rms kf
     (three_sources thr dn) =
   Inr \<lparr>m_objects = [round_source 2 20, round_source 1 30, round_source 3 10],
        m_flux_elip = [Fin 5, Fin 5, Fin (- 5)],
        m_fluxerr_elip = [Fin 1, Fin 1, Fin 1],
        m_rh = [Fin 1, Fin 1, Fin 1],
        m_seo_SN = [True, True, True]\<rparr>"
  by (simp add: measure_sources_alt three_sources_def insertion_argsort_three take_along_axis_simps Let_def kron_flux_def sep_stub_def
     three_fluxes_def round_source_def cuts_def elim_def)

lemma extract_and_measure_Inr:
  assumes "extract_and_measure sep argsort args im = Inr (lo, hi)"
  obtains bkg_image bkg_rms where
    "sep_Background sep im (maskthreshold args) (fst (backgroundwh args)) (snd (backgroundwh args))
       (fst (filterwh args)) (snd (filterwh args)) (fthreshold args) = (bkg_image, bkg_rms)"
    "measure_sources sep argsort (image_minus im bkg_image) bkg_rms (kronf args)
       (sep_extract sep (image_minus im bkg_image) (extractthersh args) bkg_rms
          (Some (deblend args))) = Inr lo"
    "measure_sources sep argsort (image_minus im bkg_image) bkg_rms (kronf args)
       (sep_extract sep (image_minus im bkg_image) (fmul (extractthersh args) (bfactor args))
          bkg_rms None) = Inr hi"
proof -
  obtain bkg_image bkg_rms where
    bkg: "sep_Background sep im (maskthreshold args) (fst (backgroundwh args)) (snd (backgroundwh args))
       (fst (filterwh args)) (snd (filterwh args)) (fthreshold args) = (bkg_image, bkg_rms)"
    by (cases "sep_Background sep im (maskthreshold args) (fst (backgroundwh args))
       (snd (backgroundwh args)) (fst (filterwh args)) (snd (filterwh args)) (fthreshold args)")
  from assms have "threshold_pipeline sep argsort (image_minus im bkg_image) bkg_rms (kronf args)
       (extractthersh args) (Some (deblend args)) = Inr lo
     \<and> threshold_pipeline sep argsort (image_minus im bkg_image) bkg_rms (kronf args)
       (fmul (extractthersh args) (bfactor args)) None = Inr hi"
    unfolding extract_and_measure_def bkg Let_def prod.case low_path_pipeline high_path_pipeline
    by (auto simp: bind_err_Inr_iff)
  then show thesis
    using bkg that unfolding threshold_pipeline_def by blast
qed

lemma run_srcextpy_eq:
  assumes "getheadval (st (datain self)) ''XBIN'' = Inr binning"
    and "extract_and_measure sep argsort args (image (st (datain self))) = Inr (lo, hi)"
    and "isfinite (srcext_rhmean lo) \<and> isfinite (srcext_rhstd lo) \<and> isfinite (srcext_elmean lo)
         \<and> isfinite (extractthersh args) \<and> isfinite (bfactor args)"
  shows "run_srcextpy sep argsort args self st =
           Inr (self\<lparr>dataout := Some (datain self)\<rparr>,
                st(datain self := srcext_out args lo hi (st (datain self))))"
  using assms
  by (simp add: run_srcextpy_def Let_def srcext_out_def setheadval_def
      srcext_rhmean_def srcext_rhstd_def srcext_elmean_def)

lemma run_srcextpy_raises:
  assumes "getheadval (st (datain self)) ''XBIN'' = Inr binning"
    and "extract_and_measure sep argsort args (image (st (datain self))) = Inr (lo, hi)"
    and "\<not> isfinite (srcext_rhmean lo)"
  shows "run_srcextpy sep argsort args self st = Inl ValueError"
  using assms
  by (simp add: run_srcextpy_def Let_def setheadval_def srcext_rhmean_def)

lemma run_srcextpy_Inr:
  assumes "run_srcextpy sep argsort args self st = Inr (self', st')"
  obtains binning lo hi where
    "getheadval (st (datain self)) ''XBIN'' = Inr binning"
    "extract_and_measure sep argsort args (image (st (datain self))) = Inr (lo, hi)"
    "self' = self\<lparr>dataout := Some (datain self)\<rparr>"
    "st' = st(datain self := srcext_out args lo hi (st (datain self)))"
    "isfinite (srcext_rhmean lo) \<and> isfinite (srcext_rhstd lo) \<and> isfinite (srcext_elmean lo)
       \<and> isfinite (extractthersh args) \<and> isfinite (bfactor args)"
proof -
  from assms obtain binning p where
    b: "getheadval (st (datain self)) ''XBIN'' = Inr binning"
    and p: "extract_and_measure sep argsort args (image (st (datain self))) = Inr p"
    unfolding run_srcextpy_def bind_err_Inr_iff by blast
  obtain lo hi where lh: "p = (lo, hi)" by (cases p)
  from assms have fin: "isfinite (srcext_rhmean lo) \<and> isfinite (srcext_rhstd lo)
       \<and> isfinite (srcext_elmean lo) \<and> isfinite (extractthersh args) \<and> isfinite (bfactor args)"
    unfolding run_srcextpy_def b p lh bind_err_Inr prod.case Let_def
      srcext_rhmean_def srcext_rhstd_def srcext_elmean_def
    by (auto simp: setheadval_def bind_err_Inr_iff split: if_splits)
  from assms run_srcextpy_eq [where st = st and self = self and lo = lo and hi = hi,
      OF b p [unfolded lh] fin]
  have "self' = self\<lparr>dataout := Some (datain self)\<rparr>"
    "st' = st(datain self := srcext_out args lo hi (st (datain self)))"
    by simp_all
  with b p lh fin show thesis using that by blast
qed


lemma srcext_out_simps:
  "tables (srcext_out args lo hi d) ''Low Threshold Sources'' = Some (make_table lo)"
  "tables (srcext_out args lo hi d) ''High Threshold Sources'' = Some (make_table hi)"
  "image (srcext_out args lo hi d) = image d"
  "header (srcext_out args lo hi d) ''RHALF'' =
     Some (nanmean (bmask (m_rh lo) (m_seo_SN lo)), ''Mean half-power radius of stars (in pixels)'')"
  "header (srcext_out args lo hi d) ''RHALFSTD'' =
     Some (mad_std (bmask (m_rh lo) (m_seo_SN lo)), ''STD of masked mean of half-power radius'')"
  "header (srcext_out args lo hi d) ''ELONG'' =
     Some (nanmean (map2 fdiv (bmask (map src_a (m_objects lo)) (m_seo_SN lo))
                              (bmask (map src_b (m_objects lo)) (m_seo_SN lo))),
           ''Mean elong of accepted sources'')"
  "header (srcext_out args lo hi d) ''EXTRACT_THRESH'' =
     Some (extractthersh args, ''Extraction Thershold for Low Thershold Table'')"
  "header (srcext_out args lo hi d) ''BRIGHT_FACTOR'' =
     Some (bfactor args, ''Multiplier to create High Threshold Table'')"
  by (simp_all add: srcext_out_def put_header_def tableset_def)

lemma three_extract_and_measure:
  "extract_and_measure (sep_stub three_sources three_fluxes) insertion_argsort args im =
     Inr (\<lparr>m_objects = [round_source 2 20, round_source 1 30, round_source 3 10],
        m_flux_elip = [Fin 5, Fin 5, Fin (- 5)],
        m_fluxerr_elip = [Fin 1, Fin 1, Fin 1],
        m_rh = [Fin 1, Fin 1, Fin 1],
        m_seo_SN = [True, True, True]\<rparr>,
        \<lparr>m_objects = [round_source 2 20, round_source 1 30, round_source 3 10],
        m_flux_elip = [Fin 5, Fin 5, Fin (- 5)],
        m_fluxerr_elip = [Fin 1, Fin 1, Fin 1],
        m_rh = [Fin 1, Fin 1, Fin 1],
        m_seo_SN = [True, True, True]\<rparr>)"
proof -
  have ex: "sep_extract (sep_stub three_sources three_fluxes) i t e d = three_sources t d" for i t e d
    by (simp add: sep_stub_def)
  show ?thesis
    unfolding extract_and_measure_def Let_def low_path_pipeline high_path_pipeline
      threshold_pipeline_def ex
    by (simp add: three_measured split: prod.splits)
qed

lemma getheadval_data0: "getheadval (store0 (datain step0)) ''XBIN'' = Inr (Fin 1)"
  by (simp add: getheadval_def store0_def data0_def)

lemma stats_of_three:
  assumes "m_rh lo = [Fin 1, Fin 1, Fin 1]" and "m_seo_SN lo = [True, True, True]"
    and "map src_a (m_objects lo) = [Fin 1, Fin 1, Fin 1]"
    and "map src_b (m_objects lo) = [Fin 1, Fin 1, Fin 1]"
  shows "srcext_rhmean lo = Fin 1" and "srcext_rhstd lo = Fin 0" and "srcext_elmean lo = Fin 1"
  using assms
  by (simp_all add: srcext_rhmean_def srcext_rhstd_def srcext_elmean_def bmask_def nanmean_def
      fsum_def mad_std_def nanmedian_def np_sort_def fsub_def)

lemma stats_of_two:
  assumes "m_rh lo = [Fin 1, Fin 1]" and "m_seo_SN lo = [True, True]"
    and "map src_a (m_objects lo) = [Fin 1, Fin 1]"
    and "map src_b (m_objects lo) = [Fin 1, Fin 1]"
  shows "srcext_rhmean lo = Fin 1" and "srcext_rhstd lo = Fin 0" and "srcext_elmean lo = Fin 1"
  using assms
  by (simp_all add: srcext_rhmean_def srcext_rhstd_def srcext_elmean_def bmask_def nanmean_def
      fsum_def mad_std_def nanmedian_def np_sort_def fsub_def)

lemma three_run:
  "run_srcextpy (sep_stub three_sources three_fluxes) insertion_argsort srcext_defaults step0 store0
   = Inr (step0\<lparr>dataout := Some 0\<rparr>,
          store0(0 := srcext_out srcext_defaults
        \<lparr>m_objects = [round_source 2 20, round_source 1 30, round_source 3 10],
        m_flux_elip = [Fin 5, Fin 5, Fin (- 5)],
        m_fluxerr_elip = [Fin 1, Fin 1, Fin 1],
        m_rh = [Fin 1, Fin 1, Fin 1],
        m_seo_SN = [True, True, True]\<rparr>
        \<lparr>m_objects = [round_source 2 20, round_source 1 30, round_source 3 10],
        m_flux_elip = [Fin 5, Fin 5, Fin (- 5)],
        m_fluxerr_elip = [Fin 1, Fin 1, Fin 1],
        m_rh = [Fin 1, Fin 1, Fin 1],
        m_seo_SN = [True, True, True]\<rparr> data0))"
proof -
  let ?m = "\<lparr>m_objects = [round_source 2 20, round_source 1 30, round_source 3 10],
        m_flux_elip = [Fin 5, Fin 5, Fin (- 5)],
        m_fluxerr_elip = [Fin 1, Fin 1, Fin 1],
        m_rh = [Fin 1, Fin 1, Fin 1],
        m_seo_SN = [True, True, True]\<rparr>"
  have fin: "isfinite (srcext_rhmean ?m) \<and> isfinite (srcext_rhstd ?m) \<and> isfinite (srcext_elmean ?m)
         \<and> isfinite (extractthersh srcext_defaults) \<and> isfinite (bfactor srcext_defaults)"
    by (simp add: stats_of_three round_source_def srcext_defaults_def)
  from run_srcextpy_eq [where st = store0 and self = step0,
      OF getheadval_data0 three_extract_and_measure fin]
  show ?thesis
    by (simp add: step0_def store0_def)
qed

lemma three_table:
  "make_table \<lparr>m_objects = [round_source 2 20, round_source 1 30, round_source 3 10],
        m_flux_elip = [Fin 5, Fin 5, Fin (- 5)],
        m_fluxerr_elip = [Fin 1, Fin 1, Fin 1],
        m_rh = [Fin 1, Fin 1, Fin 1],
        m_seo_SN = [True, True, True]\<rparr>
   = \<lparr>col_ID = [1, 2, 3], col_X = [Fin 2, Fin 1, Fin 3], col_Y = [Fin 1, Fin 1, Fin 1],
      col_Flux = [Fin 5, Fin 5, Fin (- 5)], col_Fluxerr = [Fin 1, Fin 1, Fin 1],
      col_RH = [Fin 1, Fin 1, Fin 1]\<rparr>"
  by (simp add: make_table_def bmask_def arange1_def upt_rec round_source_def)

lemma three_low_table:
  "result_table (run_srcextpy (sep_stub three_sources three_fluxes) insertion_argsort
      srcext_defaults step0 store0) ''Low Threshold Sources''
   = Some \<lparr>col_ID = [1, 2, 3], col_X = [Fin 2, Fin 1, Fin 3], col_Y = [Fin 1, Fin 1, Fin 1],
      col_Flux = [Fin 5, Fin 5, Fin (- 5)], col_Fluxerr = [Fin 1, Fin 1, Fin 1],
      col_RH = [Fin 1, Fin 1, Fin 1]\<rparr>"
  by (simp add: three_run result_table_def srcext_out_simps three_table)

lemma table_columns:
  assumes ms: "measure_sources sep argsort image_sub bkg_rms kfactor found = Inr m"
  shows "length (m_flux_elip m) = length (m_objects m)
       \<and> length (m_fluxerr_elip m) = length (m_objects m)
       \<and> col_X (make_table m) = map (\<lambda>(ob, f, e). src_x ob)
            (filter (\<lambda>(ob, f, e). cuts ob f e)
               (zip (m_objects m) (zip (m_flux_elip m) (m_fluxerr_elip m))))
       \<and> col_Y (make_table m) = map (\<lambda>(ob, f, e). src_y ob)
            (filter (\<lambda>(ob, f, e). cuts ob f e)
               (zip (m_objects m) (zip (m_flux_elip m) (m_fluxerr_elip m))))
       \<and> col_Flux (make_table m) = map (\<lambda>(ob, f, e). f)
            (filter (\<lambda>(ob, f, e). cuts ob f e)
               (zip (m_objects m) (zip (m_flux_elip m) (m_fluxerr_elip m))))
       \<and> col_Fluxerr (make_table m) = map (\<lambda>(ob, f, e). e)
            (filter (\<lambda>(ob, f, e). cuts ob f e)
               (zip (m_objects m) (zip (m_flux_elip m) (m_fluxerr_elip m))))"
proof -
  have mask: "m_seo_SN m = map (\<lambda>(ob, f, e). cuts ob f e)
           (zip (m_objects m) (zip (m_flux_elip m) (m_fluxerr_elip m)))"
    using ms by (rule measured_rows)
  have len: "length (m_flux_elip m) = length (m_objects m)"
     "length (m_fluxerr_elip m) = length (m_objects m)"
    using ms by (rule measured_rows)+
  define rows where "rows = zip (m_objects m) (zip (m_flux_elip m) (m_fluxerr_elip m))"
  have fl: "m_flux_elip m = map (\<lambda>(ob, f, e). f) rows"
    using len by (simp add: rows_def map_mid_zip3)
  have er: "m_fluxerr_elip m = map (\<lambda>(ob, f, e). e) rows"
    using len unfolding rows_def by (intro nth_equalityI) simp_all
  have ob: "m_objects m = map (\<lambda>(ob, f, e). ob) rows"
    using len unfolding rows_def by (intro nth_equalityI) simp_all
  have xs: "map src_x (m_objects m) = map (\<lambda>(ob, f, e). src_x ob) rows"
    by (subst ob) (simp add: case_prod_unfold)
  have ys: "map src_y (m_objects m) = map (\<lambda>(ob, f, e). src_y ob) rows"
    by (subst ob) (simp add: case_prod_unfold)
  have "col_X (make_table m) = map (\<lambda>(ob, f, e). src_x ob) (filter (\<lambda>(ob, f, e). cuts ob f e) rows)"
    unfolding make_table_def mask rows_def [symmetric] by (simp add: xs bmask_map_map)
  moreover have "col_Y (make_table m) = map (\<lambda>(ob, f, e). src_y ob) (filter (\<lambda>(ob, f, e). cuts ob f e) rows)"
    unfolding make_table_def mask rows_def [symmetric] by (simp add: ys bmask_map_map)
  moreover have "col_Flux (make_table m) = map (\<lambda>(ob, f, e). f) (filter (\<lambda>(ob, f, e). cuts ob f e) rows)"
    unfolding make_table_def mask rows_def [symmetric] by (simp add: fl bmask_map_map)
  moreover have "col_Fluxerr (make_table m) = map (\<lambda>(ob, f, e). e) (filter (\<lambda>(ob, f, e). cuts ob f e) rows)"
    unfolding make_table_def mask rows_def [symmetric] by (simp add: er bmask_map_map)
  ultimately show ?thesis
    using len unfolding rows_def by simp
qed

lemma result_table_Inr:
  "result_table (Inr (self\<lparr>dataout := Some out\<rparr>, st')) name = tables (st' out) name"
  by (simp add: result_table_def)

section \<open>The acceptance cuts of the result tables\<close>

text \<open>
  What the cuts of lines 223-228 guarantee. When the extraction step completes, each of
  the two result tables (low and high threshold) holds, in order, exactly the measured
  sources that satisfy all of: elongation \<open>a/b < 1.5\<close>, \<open>flux/flux_err < 1000\<close>,
  \<open>flux_err \<noteq> 0\<close> and \<open>flux \<noteq> 0\<close>; a source failing one of these is not in
  the table.
\<close>

theorem accepted_sources_pass_cuts:
  assumes "run_srcextpy sep argsort args self st = Inr (self', st')"
  shows "\<exists>lo hi.
      extract_and_measure sep argsort args (image (st (datain self))) = Inr (lo, hi)
    \<and> result_table (Inr (self', st')) ''Low Threshold Sources'' = Some (make_table lo)
    \<and> result_table (Inr (self', st')) ''High Threshold Sources'' = Some (make_table hi)
    \<and> (\<forall>m \<in> {lo, hi}.
         let rows = zip (m_objects m) (zip (m_flux_elip m) (m_fluxerr_elip m));
             kept = filter (\<lambda>(ob, f, e).
                        flt (fdiv (src_a ob) (src_b ob)) (Fin 1.5) \<and> flt (fdiv f e) (Fin 1000)
                      \<and> fne e (Fin 0) \<and> fne f (Fin 0)) rows
         in length (m_flux_elip m) = length (m_objects m)
          \<and> length (m_fluxerr_elip m) = length (m_objects m)
          \<and> col_X (make_table m) = map (\<lambda>(ob, f, e). src_x ob) kept
          \<and> col_Y (make_table m) = map (\<lambda>(ob, f, e). src_y ob) kept
          \<and> col_Flux (make_table m) = map (\<lambda>(ob, f, e). f) kept
          \<and> col_Fluxerr (make_table m) = map (\<lambda>(ob, f, e). e) kept)"
proof -
  from assms obtain binning lo hi where
    em: "extract_and_measure sep argsort args (image (st (datain self))) = Inr (lo, hi)"
    and self': "self' = self\<lparr>dataout := Some (datain self)\<rparr>"
    and st': "st' = st(datain self := srcext_out args lo hi (st (datain self)))"
    by (rule run_srcextpy_Inr)
  from em obtain bkg_image bkg_rms where
    lo: "measure_sources sep argsort (image_minus (image (st (datain self))) bkg_image) bkg_rms
       (kronf args) (sep_extract sep (image_minus (image (st (datain self))) bkg_image)
          (extractthersh args) bkg_rms (Some (deblend args))) = Inr lo"
    and hi: "measure_sources sep argsort (image_minus (image (st (datain self))) bkg_image) bkg_rms
       (kronf args) (sep_extract sep (image_minus (image (st (datain self))) bkg_image)
          (fmul (extractthersh args) (bfactor args)) bkg_rms None) = Inr hi"
    by (rule extract_and_measure_Inr)
  have tl: "result_table (Inr (self', st')) ''Low Threshold Sources'' = Some (make_table lo)"
    and th: "result_table (Inr (self', st')) ''High Threshold Sources'' = Some (make_table hi)"
    by (simp_all add: self' st' result_table_Inr srcext_out_simps)
  have cuts_eq: "(\<lambda>(ob, f, e). cuts ob f e) = (\<lambda>(ob, f, e).
                        flt (fdiv (src_a ob) (src_b ob)) (Fin 1.5) \<and> flt (fdiv f e) (Fin 1000)
                      \<and> fne e (Fin 0) \<and> fne f (Fin 0))"
    by (simp add: cuts_def elim_def fun_eq_iff)
  show ?thesis
    using em tl th table_columns [OF lo] table_columns [OF hi]
    unfolding cuts_eq by (intro exI [of _ lo] exI [of _ hi]) (simp add: Let_def)
qed

text \<open>The statement at the three objects of the stand-in.\<close>

theorem accepted_sources_pass_cuts_witness:
  "run_srcextpy (sep_stub three_sources three_fluxes) insertion_argsort srcext_defaults step0 store0
     = Inr (step0\<lparr>dataout := Some 0\<rparr>,
          store0(0 := srcext_out srcext_defaults
        \<lparr>m_objects = [round_source 2 20, round_source 1 30, round_source 3 10],
        m_flux_elip = [Fin 5, Fin 5, Fin (- 5)],
        m_fluxerr_elip = [Fin 1, Fin 1, Fin 1],
        m_rh = [Fin 1, Fin 1, Fin 1],
        m_seo_SN = [True, True, True]\<rparr>
        \<lparr>m_objects = [round_source 2 20, round_source 1 30, round_source 3 10],
        m_flux_elip = [Fin 5, Fin 5, Fin (- 5)],
        m_fluxerr_elip = [Fin 1, Fin 1, Fin 1],
        m_rh = [Fin 1, Fin 1, Fin 1],
        m_seo_SN = [True, True, True]\<rparr> data0))
   \<and> (\<exists>lo hi. extract_and_measure (sep_stub three_sources three_fluxes) insertion_argsort
          srcext_defaults (image (store0 (datain step0))) = Inr (lo, hi)
        \<and> col_Flux (make_table lo) = map (\<lambda>(ob, f, e). f)
            (filter (\<lambda>(ob, f, e).
                        flt (fdiv (src_a ob) (src_b ob)) (Fin 1.5) \<and> flt (fdiv f e) (Fin 1000)
                      \<and> fne e (Fin 0) \<and> fne f (Fin 0))
               (zip (m_objects lo) (zip (m_flux_elip lo) (m_fluxerr_elip lo)))))"
proof -
  note run = three_run
  from accepted_sources_pass_cuts [OF run] obtain lo hi where
    "extract_and_measure (sep_stub three_sources three_fluxes) insertion_argsort
          srcext_defaults (image (store0 (datain step0))) = Inr (lo, hi)"
    "col_Flux (make_table lo) = map (\<lambda>(ob, f, e). f)
            (filter (\<lambda>(ob, f, e).
                        flt (fdiv (src_a ob) (src_b ob)) (Fin 1.5) \<and> flt (fdiv f e) (Fin 1000)
                      \<and> fne e (Fin 0) \<and> fne f (Fin 0))
               (zip (m_objects lo) (zip (m_flux_elip lo) (m_fluxerr_elip lo))))"
    by (auto simp: Let_def)
  with run show ?thesis by blast
qed

text \<open>
  Claim C2 asks of every accepted source that \<open>0 < flux/flux_err\<close>, and the comment
  of line 219 announces a selection of \<open>S/N > 10\<close>; the cuts have no lower bound on
  \<open>flux/flux_err\<close>. The third object of the stand-in has the elliptical flux -5 with
  flux error 1: it is round, its \<open>flux/flux_err\<close> is below 1000, neither value is 0,
  and so it is in the low-threshold table, with a \<open>flux/flux_err\<close> that is not
  above 0.
\<close>

theorem negative_flux_source_accepted:
  "result_table (run_srcextpy (sep_stub three_sources three_fluxes) insertion_argsort
      srcext_defaults step0 store0) ''Low Threshold Sources''
   = Some \<lparr>col_ID = [1, 2, 3], col_X = [Fin 2, Fin 1, Fin 3], col_Y = [Fin 1, Fin 1, Fin 1],
      col_Flux = [Fin 5, Fin 5, Fin (- 5)], col_Fluxerr = [Fin 1, Fin 1, Fin 1],
      col_RH = [Fin 1, Fin 1, Fin 1]\<rparr>
   \<and> \<not> flt (Fin 0) (fdiv (Fin (- 5)) (Fin 1))"
  by (simp add: three_low_table)

section \<open>The order of the result tables\<close>

text \<open>
  Claim C3, as the code has it. Given what numpy promises of \<open>argsort\<close>, each result
  table of a completed extraction step is in descending order of elliptical flux: for any
  two consecutive entries \<open>i\<close>, \<open>i + 1\<close>, \<open>flux[i] \<ge> flux[i + 1]\<close>. The order of
  equal fluxes is the reverse of the order \<open>argsort\<close> gives them, not that of a stable
  sort; the table is a function of the input, so a second run on the same input gives the
  same table.
\<close>

theorem tables_sorted_by_flux_descending:
  assumes ok: "argsort_ok argsort"
    and run: "run_srcextpy sep argsort args self st = Inr (self', st')"
    and name: "name = ''Low Threshold Sources'' \<or> name = ''High Threshold Sources''"
  shows "\<exists>t. result_table (Inr (self', st')) name = Some t
           \<and> (\<forall>i. i + 1 < length (col_Flux t) \<longrightarrow> fge (col_Flux t ! i) (col_Flux t ! (i + 1)))"
proof -
  from run obtain binning lo hi where
    em: "extract_and_measure sep argsort args (image (st (datain self))) = Inr (lo, hi)"
    and self': "self' = self\<lparr>dataout := Some (datain self)\<rparr>"
    and st': "st' = st(datain self := srcext_out args lo hi (st (datain self)))"
    by (rule run_srcextpy_Inr)
  from em obtain bkg_image bkg_rms where
    lo: "measure_sources sep argsort (image_minus (image (st (datain self))) bkg_image) bkg_rms
       (kronf args) (sep_extract sep (image_minus (image (st (datain self))) bkg_image)
          (extractthersh args) bkg_rms (Some (deblend args))) = Inr lo"
    and hi: "measure_sources sep argsort (image_minus (image (st (datain self))) bkg_image) bkg_rms
       (kronf args) (sep_extract sep (image_minus (image (st (datain self))) bkg_image)
          (fmul (extractthersh args) (bfactor args)) bkg_rms None) = Inr hi"
    by (rule extract_and_measure_Inr)
  define t where "t = (if name = ''Low Threshold Sources'' then make_table lo else make_table hi)"
  have tab: "result_table (Inr (self', st')) name = Some t"
    using name by (auto simp: t_def self' st' result_table_Inr srcext_out_simps)
  have "sorted_wrt fge (col_Flux t)"
    unfolding t_def using table_flux_sorted [OF ok lo] table_flux_sorted [OF ok hi] by simp
  then have "\<forall>i. i + 1 < length (col_Flux t) \<longrightarrow> fge (col_Flux t ! i) (col_Flux t ! (i + 1))"
    by (auto intro: sorted_wrt_nth_less)
  with tab show ?thesis by blast
qed

text \<open>The statement at the three objects of the stand-in, for the high-threshold table.\<close>

theorem tables_sorted_by_flux_descending_witness:
  "argsort_ok insertion_argsort
   \<and> run_srcextpy (sep_stub three_sources three_fluxes) insertion_argsort srcext_defaults step0 store0
     = Inr (step0\<lparr>dataout := Some 0\<rparr>,
          store0(0 := srcext_out srcext_defaults
        \<lparr>m_objects = [round_source 2 20, round_source 1 30, round_source 3 10],
        m_flux_elip = [Fin 5, Fin 5, Fin (- 5)],
        m_fluxerr_elip = [Fin 1, Fin 1, Fin 1],
        m_rh = [Fin 1, Fin 1, Fin 1],
        m_seo_SN = [True, True, True]\<rparr>
        \<lparr>m_objects = [round_source 2 20, round_source 1 30, round_source 3 10],
        m_flux_elip = [Fin 5, Fin 5, Fin (- 5)],
        m_fluxerr_elip = [Fin 1, Fin 1, Fin 1],
        m_rh = [Fin 1, Fin 1, Fin 1],
        m_seo_SN = [True, True, True]\<rparr> data0))
   \<and> (\<exists>t. result_table (run_srcextpy (sep_stub three_sources three_fluxes) insertion_argsort
               srcext_defaults step0 store0) ''High Threshold Sources'' = Some t
          \<and> (\<forall>i. i + 1 < length (col_Flux t) \<longrightarrow> fge (col_Flux t ! i) (col_Flux t ! (i + 1))))"
proof -
  note run = three_run
  have name: "''High Threshold Sources'' = ''Low Threshold Sources''
            \<or> ''High Threshold Sources'' = ''High Threshold Sources''"
    by simp
  from tables_sorted_by_flux_descending [OF argsort_ok_insertion run name]
  show ?thesis
    using argsort_ok_insertion run by simp
qed

text \<open>
  The objects at \<open>x = 1\<close> and \<open>x = 2\<close> have the same elliptical flux and are measured in
  this order. The table lists \<open>x = 2\<close> first; a stable sort into descending order keeps
  \<open>x = 1\<close> first.
\<close>

theorem tie_order_not_stable_counterexample:
  "map_option col_X (result_table (run_srcextpy (sep_stub three_sources three_fluxes)
      insertion_argsort srcext_defaults step0 store0) ''Low Threshold Sources'')
     = Some [Fin 2, Fin 1, Fin 3]
   \<and> map (\<lambda>(ob, f). src_x ob)
       (stable_sort_desc [(round_source 1 30, Fin 5), (round_source 2 20, Fin 5),
                          (round_source 3 10, Fin (- 5))])
     = [Fin 1, Fin 2, Fin 3]"
  by (simp add: three_low_table stable_sort_desc_def round_source_def)

section \<open>An image without sources\<close>

lemma measure_sources_Nil:
  assumes "argsort [] = []"
  shows "measure_sources sep argsort image_sub bkg_rms kfactor [] =
           Inr \<lparr>m_objects = [], m_flux_elip = [], m_fluxerr_elip = [], m_rh = [], m_seo_SN = []\<rparr>"
  using assms by (simp add: measure_sources_alt take_along_axis_def)

lemma make_table_Nil:
  "make_table \<lparr>m_objects = [], m_flux_elip = [], m_fluxerr_elip = [], m_rh = [], m_seo_SN = []\<rparr>
     = \<lparr>col_ID = [], col_X = [], col_Y = [], col_Flux = [], col_Fluxerr = [], col_RH = []\<rparr>"
  by (simp add: make_table_def bmask_def arange1_def)

lemma nanmean_Nil: "nanmean [] = NaN"
  by (simp add: nanmean_def)

lemma mad_std_Nil: "mad_std [] = NaN"
  by (simp add: mad_std_def nanmedian_def np_sort_def)

lemma result_headval_Inr:
  "result_headval (Inr (self\<lparr>dataout := Some out\<rparr>, st')) key = map_option fst (header (st' out) key)"
  by (simp add: result_headval_def)

lemma stats_Nil:
  "srcext_rhmean \<lparr>m_objects = [], m_flux_elip = [], m_fluxerr_elip = [], m_rh = [], m_seo_SN = []\<rparr>
     = NaN"
  "srcext_rhstd \<lparr>m_objects = [], m_flux_elip = [], m_fluxerr_elip = [], m_rh = [], m_seo_SN = []\<rparr>
     = NaN"
  "srcext_elmean \<lparr>m_objects = [], m_flux_elip = [], m_fluxerr_elip = [], m_rh = [], m_seo_SN = []\<rparr>
     = NaN"
  by (simp_all add: srcext_rhmean_def srcext_rhstd_def srcext_elmean_def bmask_def
      nanmean_Nil mad_std_Nil)

text \<open>
  Claim C6, as the code has it. When both calls of \<open>extract\<close> on the
  background-subtracted image return no source (no pixel is above the threshold), nothing
  up to line 288 raises: both measured sets are empty, both result tables the step builds
  are empty, and the mean half-flux radius, its robust standard deviation and the mean
  elongation it computes are NaN. The header does not take these values: \<open>setheadval\<close>
  refuses a NaN.
\<close>

theorem empty_extraction_measures_nothing:
  assumes bkg: "sep_Background sep psimage (maskthreshold args)
                (fst (backgroundwh args)) (snd (backgroundwh args))
                (fst (filterwh args)) (snd (filterwh args)) (fthreshold args)
              = (bkg_image, bkg_rms)"
    and low: "sep_extract sep (image_minus psimage bkg_image)
                (extractthersh args) bkg_rms (Some (deblend args)) = []"
    and high: "sep_extract sep (image_minus psimage bkg_image)
                (fmul (extractthersh args) (bfactor args)) bkg_rms None = []"
    and argsort: "argsort [] = []"
  shows "\<exists>lo hi. extract_and_measure sep argsort args psimage = Inr (lo, hi)
       \<and> m_objects lo = [] \<and> m_objects hi = []
       \<and> make_table lo = \<lparr>col_ID = [], col_X = [], col_Y = [], col_Flux = [], col_Fluxerr = [],
                             col_RH = []\<rparr>
       \<and> make_table hi = \<lparr>col_ID = [], col_X = [], col_Y = [], col_Flux = [], col_Fluxerr = [],
                             col_RH = []\<rparr>
       \<and> srcext_rhmean lo = NaN \<and> srcext_rhstd lo = NaN \<and> srcext_elmean lo = NaN
       \<and> (\<forall>d. setheadval ''RHALF'' (srcext_rhmean lo)
                 ''Mean half-power radius of stars (in pixels)'' d = Inl ValueError)"
proof -
  let ?e = "\<lparr>m_objects = [], m_flux_elip = [], m_fluxerr_elip = [], m_rh = [], m_seo_SN = []\<rparr>"
  have em: "extract_and_measure sep argsort args psimage = Inr (?e, ?e)"
    unfolding extract_and_measure_def bkg Let_def prod.case low_path_pipeline high_path_pipeline
      threshold_pipeline_def low high
    by (simp add: measure_sources_Nil [where argsort = argsort, OF argsort])
  show ?thesis
    by (intro exI [of _ ?e] conjI em) (simp_all add: make_table_Nil stats_Nil setheadval_def)
qed

lemma no_sources_extract:
  "sep_extract (sep_stub no_sources fl) im thr err dn = []"
  by (simp add: sep_stub_def no_sources_def)

lemma no_sources_measured:
  "extract_and_measure (sep_stub no_sources three_fluxes) insertion_argsort srcext_defaults
     (image (store0 (datain step0)))
   = Inr (\<lparr>m_objects = [], m_flux_elip = [], m_fluxerr_elip = [], m_rh = [], m_seo_SN = []\<rparr>,
          \<lparr>m_objects = [], m_flux_elip = [], m_fluxerr_elip = [], m_rh = [], m_seo_SN = []\<rparr>)"
proof -
  have argsort: "insertion_argsort [] = []"
    by (simp add: insertion_argsort_def)
  show ?thesis
    unfolding extract_and_measure_def Let_def low_path_pipeline high_path_pipeline
      threshold_pipeline_def no_sources_extract
    by (simp add: measure_sources_Nil [where argsort = insertion_argsort, OF argsort]
        split: prod.splits)
qed

text \<open>The statement at the stand-in that finds nothing.\<close>

theorem empty_extraction_measures_nothing_witness:
  "sep_Background (sep_stub no_sources three_fluxes) (image (store0 (datain step0)))
     (maskthreshold srcext_defaults)
     (fst (backgroundwh srcext_defaults)) (snd (backgroundwh srcext_defaults))
     (fst (filterwh srcext_defaults)) (snd (filterwh srcext_defaults))
     (fthreshold srcext_defaults) = ([[Fin 0]], [[Fin 1]])
   \<and> insertion_argsort [] = []
   \<and> (\<exists>lo hi. extract_and_measure (sep_stub no_sources three_fluxes) insertion_argsort
          srcext_defaults (image (store0 (datain step0))) = Inr (lo, hi)
        \<and> m_objects lo = [] \<and> srcext_rhmean lo = NaN)"
proof -
  have bkg: "sep_Background (sep_stub no_sources three_fluxes) (image (store0 (datain step0)))
                (maskthreshold srcext_defaults)
                (fst (backgroundwh srcext_defaults)) (snd (backgroundwh srcext_defaults))
                (fst (filterwh srcext_defaults)) (snd (filterwh srcext_defaults))
                (fthreshold srcext_defaults)
              = ([[Fin 0]], [[Fin 1]])"
    by (simp add: sep_stub_def store0_def data0_def)
  have argsort: "insertion_argsort [] = []"
    by (simp add: insertion_argsort_def)
  from empty_extraction_measures_nothing [where sep = "sep_stub no_sources three_fluxes"
      and argsort = insertion_argsort and args = srcext_defaults,
      OF bkg no_sources_extract no_sources_extract argsort]
  show ?thesis
    using bkg argsort by blast
qed

text \<open>
  The run on an image in which nothing is found. The input object has the binning
  keyword; the measured sets are empty; the run does not return: it raises ValueError at
  line 294, where the NaN mean half-flux radius is written to the header, and no table is
  attached.
\<close>

theorem empty_image_run_raises_counterexample:
  "getheadval (store0 (datain step0)) ''XBIN'' = Inr (Fin 1)
   \<and> run_srcextpy (sep_stub no_sources three_fluxes) insertion_argsort srcext_defaults
        step0 store0 = Inl ValueError
   \<and> result_table (run_srcextpy (sep_stub no_sources three_fluxes) insertion_argsort
        srcext_defaults step0 store0) ''Low Threshold Sources'' = None"
proof -
  have nan: "\<not> isfinite (srcext_rhmean
      \<lparr>m_objects = [], m_flux_elip = [], m_fluxerr_elip = [], m_rh = [], m_seo_SN = []\<rparr>)"
    by (simp add: stats_Nil)
  have run: "run_srcextpy (sep_stub no_sources three_fluxes) insertion_argsort srcext_defaults
        step0 store0 = Inl ValueError"
    using getheadval_data0 no_sources_measured nan by (rule run_srcextpy_raises)
  show ?thesis
    unfolding run by (simp add: getheadval_data0 result_table_def)
qed

section \<open>The elliptical flux of an object\<close>

text \<open>
  Claim C8, as the code has it. When the extraction step completes, the elliptical flux
  and flux error of every measured object, at either threshold, are what
  \<open>sum_ellipse\<close> returns for the object's ellipse on the background-subtracted image
  at the radius \<open>kronf\<close> times the object's Kron radius (itself computed with
  \<open>r = 6\<close>), with the background RMS map as \<open>err\<close> and with \<open>subpix = 1\<close>: one
  sample for each pixel, which is no subdivision of the pixel and not the finest sampling
  SEP offers.
\<close>

theorem elliptical_flux_call:
  assumes "run_srcextpy sep argsort args self st = Inr (self', st')"
  shows "\<exists>bkg_image bkg_rms lo hi.
      sep_Background sep (image (st (datain self))) (maskthreshold args)
        (fst (backgroundwh args)) (snd (backgroundwh args))
        (fst (filterwh args)) (snd (filterwh args)) (fthreshold args) = (bkg_image, bkg_rms)
    \<and> extract_and_measure sep argsort args (image (st (datain self))) = Inr (lo, hi)
    \<and> (\<forall>m \<in> {lo, hi}. \<forall>k < length (m_objects m).
          let ob = m_objects m ! k;
              image_sub = image_minus (image (st (datain self))) bkg_image;
              kronrad = fst (sep_kron_radius sep image_sub (src_x ob) (src_y ob)
                               (src_a ob) (src_b ob) (src_theta ob) (Fin 6));
              summed = sep_sum_ellipse sep image_sub (src_x ob) (src_y ob) (src_a ob) (src_b ob)
                         (src_theta ob) (fmul (kronf args) kronrad) bkg_rms 1
          in m_flux_elip m ! k = fst summed \<and> m_fluxerr_elip m ! k = fst (snd summed))"
proof -
  from assms obtain binning lo hi where
    em: "extract_and_measure sep argsort args (image (st (datain self))) = Inr (lo, hi)"
    by (rule run_srcextpy_Inr)
  from em obtain bkg_image bkg_rms where
    bkg: "sep_Background sep (image (st (datain self))) (maskthreshold args)
        (fst (backgroundwh args)) (snd (backgroundwh args))
        (fst (filterwh args)) (snd (filterwh args)) (fthreshold args) = (bkg_image, bkg_rms)"
    and lo: "measure_sources sep argsort (image_minus (image (st (datain self))) bkg_image) bkg_rms
       (kronf args) (sep_extract sep (image_minus (image (st (datain self))) bkg_image)
          (extractthersh args) bkg_rms (Some (deblend args))) = Inr lo"
    and hi: "measure_sources sep argsort (image_minus (image (st (datain self))) bkg_image) bkg_rms
       (kronf args) (sep_extract sep (image_minus (image (st (datain self))) bkg_image)
          (fmul (extractthersh args) (bfactor args)) bkg_rms None) = Inr hi"
    by (rule extract_and_measure_Inr)
  have "\<forall>m \<in> {lo, hi}. \<forall>k < length (m_objects m).
          m_flux_elip m ! k = fst (kron_flux sep (image_minus (image (st (datain self))) bkg_image)
                                     bkg_rms (kronf args) (m_objects m ! k))
        \<and> m_fluxerr_elip m ! k = fst (snd (kron_flux sep
                                     (image_minus (image (st (datain self))) bkg_image)
                                     bkg_rms (kronf args) (m_objects m ! k)))"
    using measured_kron_flux(1,2) [OF lo] measured_kron_flux(1,2) [OF hi] by blast
  then have "\<forall>m \<in> {lo, hi}. \<forall>k < length (m_objects m).
          let ob = m_objects m ! k;
              image_sub = image_minus (image (st (datain self))) bkg_image;
              kronrad = fst (sep_kron_radius sep image_sub (src_x ob) (src_y ob)
                               (src_a ob) (src_b ob) (src_theta ob) (Fin 6));
              summed = sep_sum_ellipse sep image_sub (src_x ob) (src_y ob) (src_a ob) (src_b ob)
                         (src_theta ob) (fmul (kronf args) kronrad) bkg_rms 1
          in m_flux_elip m ! k = fst summed \<and> m_fluxerr_elip m ! k = fst (snd summed)"
    by (simp add: kron_flux_def Let_def)
  with bkg em show ?thesis by blast
qed

text \<open>The statement at the stand-in that reports its arguments.\<close>

lemma probe_measured:
  "k < 1000 \<Longrightarrow> k \<noteq> 0 \<Longrightarrow> measure_sources sep_probe insertion_argsort im rms (Fin k) (three_sources thr dn) =
   Inr \<lparr>m_objects = [round_source 3 10, round_source 2 20, round_source 1 30],
        m_flux_elip = [Fin k, Fin k, Fin k],
        m_fluxerr_elip = [Fin 1, Fin 1, Fin 1],
        m_rh = [Fin 1, Fin 1, Fin 1],
        m_seo_SN = [True, True, True]\<rparr>"
  by (simp add: measure_sources_alt three_sources_def insertion_argsort_three take_along_axis_simps Let_def kron_flux_def
      sep_stub_def sep_probe_def round_source_def cuts_def elim_def)


lemma probe_extract_and_measure:
  "extract_and_measure sep_probe insertion_argsort srcext_defaults im =
     Inr (\<lparr>m_objects = [round_source 3 10, round_source 2 20, round_source 1 30],
        m_flux_elip = [Fin 2.5, Fin 2.5, Fin 2.5],
        m_fluxerr_elip = [Fin 1, Fin 1, Fin 1],
        m_rh = [Fin 1, Fin 1, Fin 1],
        m_seo_SN = [True, True, True]\<rparr>,
        \<lparr>m_objects = [round_source 3 10, round_source 2 20, round_source 1 30],
        m_flux_elip = [Fin 2.5, Fin 2.5, Fin 2.5],
        m_fluxerr_elip = [Fin 1, Fin 1, Fin 1],
        m_rh = [Fin 1, Fin 1, Fin 1],
        m_seo_SN = [True, True, True]\<rparr>)"
proof -
  have ex: "sep_extract sep_probe i t e d = three_sources t d" for i t e d
    by (simp add: sep_stub_def sep_probe_def)
  have kf: "kronf srcext_defaults = Fin 2.5"
    by (simp add: srcext_defaults_def)
  show ?thesis
    unfolding extract_and_measure_def Let_def low_path_pipeline high_path_pipeline
      threshold_pipeline_def ex kf
    by (simp add: probe_measured split: prod.splits)
qed

lemma probe_run:
  "run_srcextpy sep_probe insertion_argsort srcext_defaults step0 store0
   = Inr (step0\<lparr>dataout := Some 0\<rparr>,
          store0(0 := srcext_out srcext_defaults
        \<lparr>m_objects = [round_source 3 10, round_source 2 20, round_source 1 30],
        m_flux_elip = [Fin 2.5, Fin 2.5, Fin 2.5],
        m_fluxerr_elip = [Fin 1, Fin 1, Fin 1],
        m_rh = [Fin 1, Fin 1, Fin 1],
        m_seo_SN = [True, True, True]\<rparr>
        \<lparr>m_objects = [round_source 3 10, round_source 2 20, round_source 1 30],
        m_flux_elip = [Fin 2.5, Fin 2.5, Fin 2.5],
        m_fluxerr_elip = [Fin 1, Fin 1, Fin 1],
        m_rh = [Fin 1, Fin 1, Fin 1],
        m_seo_SN = [True, True, True]\<rparr> data0))"
proof -
  let ?m = "\<lparr>m_objects = [round_source 3 10, round_source 2 20, round_source 1 30],
        m_flux_elip = [Fin 2.5, Fin 2.5, Fin 2.5],
        m_fluxerr_elip = [Fin 1, Fin 1, Fin 1],
        m_rh = [Fin 1, Fin 1, Fin 1],
        m_seo_SN = [True, True, True]\<rparr>"
  have fin: "isfinite (srcext_rhmean ?m) \<and> isfinite (srcext_rhstd ?m) \<and> isfinite (srcext_elmean ?m)
         \<and> isfinite (extractthersh srcext_defaults) \<and> isfinite (bfactor srcext_defaults)"
    by (simp add: stats_of_three round_source_def srcext_defaults_def)
  from run_srcextpy_eq [where st = store0 and self = step0,
      OF getheadval_data0 probe_extract_and_measure fin]
  show ?thesis
    by (simp add: step0_def store0_def)
qed

theorem elliptical_flux_call_witness:
  "run_srcextpy sep_probe insertion_argsort srcext_defaults step0 store0
   = Inr (step0\<lparr>dataout := Some 0\<rparr>,
          store0(0 := srcext_out srcext_defaults
        \<lparr>m_objects = [round_source 3 10, round_source 2 20, round_source 1 30],
        m_flux_elip = [Fin 2.5, Fin 2.5, Fin 2.5],
        m_fluxerr_elip = [Fin 1, Fin 1, Fin 1],
        m_rh = [Fin 1, Fin 1, Fin 1],
        m_seo_SN = [True, True, True]\<rparr>
        \<lparr>m_objects = [round_source 3 10, round_source 2 20, round_source 1 30],
        m_flux_elip = [Fin 2.5, Fin 2.5, Fin 2.5],
        m_fluxerr_elip = [Fin 1, Fin 1, Fin 1],
        m_rh = [Fin 1, Fin 1, Fin 1],
        m_seo_SN = [True, True, True]\<rparr> data0))
   \<and> (\<exists>lo hi. extract_and_measure sep_probe insertion_argsort srcext_defaults
                 (image (store0 (datain step0))) = Inr (lo, hi))"
proof -
  note run = probe_run
  from elliptical_flux_call [OF run] run show ?thesis by blast
qed

text \<open>
  The stand-in reports the radius as the flux and \<open>subpix\<close> as the flux error: the
  tables show the radius 2.5 (the factor 2.5 times the Kron radius 1) and \<open>subpix = 1\<close>.
  By SEP's documentation that is one sample for a pixel, against 25 for the default and
  the exact overlap for \<open>subpix = 0\<close>.
\<close>

theorem subpix_one_not_finest_counterexample:
  "map_option col_Flux (result_table (run_srcextpy sep_probe insertion_argsort srcext_defaults
      step0 store0) ''Low Threshold Sources'') = Some [Fin 2.5, Fin 2.5, Fin 2.5]
   \<and> map_option col_Fluxerr (result_table (run_srcextpy sep_probe insertion_argsort
      srcext_defaults step0 store0) ''Low Threshold Sources'') = Some [Fin 1, Fin 1, Fin 1]
   \<and> subpix_samples 1 = Some 1
   \<and> subpix_samples subpix_default = Some 25
   \<and> subpix_samples 0 = None"
  by (simp add: probe_run result_table_def srcext_out_simps make_table_def bmask_def
      subpix_samples_def subpix_default_def)

section \<open>The two thresholds compared\<close>

text \<open>
  Both paths are the one function \<open>threshold_pipeline\<close> (lemmas
  \<open>low_path_pipeline\<close> and \<open>high_path_pipeline\<close>), but they differ in two of its
  arguments: the threshold, and the deblending parameter, which the low-threshold call
  passes and the high-threshold call leaves to the library's default.
\<close>

lemma blended_low:
  "measure_sources (sep_stub blended_sources three_fluxes) insertion_argsort im rms (Fin k)
     [round_source 1 30, round_source 2 20] =
   Inr \<lparr>m_objects = [round_source 2 20, round_source 1 30],
        m_flux_elip = [Fin 5, Fin 5],
        m_fluxerr_elip = [Fin 1, Fin 1],
        m_rh = [Fin 1, Fin 1],
        m_seo_SN = [True, True]\<rparr>"
  by (simp add: measure_sources_alt insertion_argsort_def upt_rec take_along_axis_simps Let_def
      kron_flux_def sep_stub_def three_fluxes_def round_source_def cuts_def elim_def)

lemma blended_high:
  "measure_sources (sep_stub blended_sources three_fluxes) insertion_argsort im rms (Fin k)
     [round_source 1 50] =
   Inr \<lparr>m_objects = [round_source 1 50],
        m_flux_elip = [Fin 5],
        m_fluxerr_elip = [Fin 1],
        m_rh = [Fin 1],
        m_seo_SN = [True]\<rparr>"
  by (simp add: measure_sources_alt insertion_argsort_def upt_rec take_along_axis_simps Let_def
      kron_flux_def sep_stub_def three_fluxes_def round_source_def cuts_def elim_def)

lemma blended_extract_and_measure:
  "extract_and_measure (sep_stub blended_sources three_fluxes) insertion_argsort
     (srcext_defaults\<lparr>bfactor := Fin 1\<rparr>) im =
     Inr (\<lparr>m_objects = [round_source 2 20, round_source 1 30],
        m_flux_elip = [Fin 5, Fin 5],
        m_fluxerr_elip = [Fin 1, Fin 1],
        m_rh = [Fin 1, Fin 1],
        m_seo_SN = [True, True]\<rparr>,
        \<lparr>m_objects = [round_source 1 50],
        m_flux_elip = [Fin 5],
        m_fluxerr_elip = [Fin 1],
        m_rh = [Fin 1],
        m_seo_SN = [True]\<rparr>)"
proof -
  have ex: "sep_extract (sep_stub blended_sources three_fluxes) i t e d = blended_sources t d"
    for i t e d
    by (simp add: sep_stub_def)
  have lo: "blended_sources t (Some (deblend (srcext_defaults\<lparr>bfactor := Fin 1\<rparr>)))
              = [round_source 1 30, round_source 2 20]" for t
    by (simp add: blended_sources_def srcext_defaults_def)
  have hi: "blended_sources t None = [round_source 1 50]" for t
    by (simp add: blended_sources_def)
  have kf: "kronf (srcext_defaults\<lparr>bfactor := Fin 1\<rparr>) = Fin 2.5"
    by (simp add: srcext_defaults_def)
  show ?thesis
    unfolding extract_and_measure_def Let_def low_path_pipeline high_path_pipeline
      threshold_pipeline_def ex lo hi kf
    by (simp add: blended_low blended_high split: prod.splits)
qed

text \<open>
  Claim C9 says that the two paths differ in the threshold only. With the bright factor 1
  the two thresholds are equal, so the two tables would be equal. For a blend that
  \<open>extract\<close> separates only when it is given \<open>deblend_nthresh = 256\<close> (the
  configured default), the low-threshold table has two rows and the high-threshold table
  has one.
\<close>

theorem high_threshold_ignores_deblend:
  "fmul (extractthersh (srcext_defaults\<lparr>bfactor := Fin 1\<rparr>))
        (bfactor (srcext_defaults\<lparr>bfactor := Fin 1\<rparr>))
     = extractthersh (srcext_defaults\<lparr>bfactor := Fin 1\<rparr>)
   \<and> map_option col_X (result_table (run_srcextpy (sep_stub blended_sources three_fluxes)
        insertion_argsort (srcext_defaults\<lparr>bfactor := Fin 1\<rparr>) step0 store0)
        ''Low Threshold Sources'') = Some [Fin 2, Fin 1]
   \<and> map_option col_X (result_table (run_srcextpy (sep_stub blended_sources three_fluxes)
        insertion_argsort (srcext_defaults\<lparr>bfactor := Fin 1\<rparr>) step0 store0)
        ''High Threshold Sources'') = Some [Fin 1]"
proof -
  have run: "run_srcextpy (sep_stub blended_sources three_fluxes) insertion_argsort
       (srcext_defaults\<lparr>bfactor := Fin 1\<rparr>) step0 store0
     = Inr (step0\<lparr>dataout := Some (datain step0)\<rparr>,
          store0(datain step0 := srcext_out (srcext_defaults\<lparr>bfactor := Fin 1\<rparr>)
        \<lparr>m_objects = [round_source 2 20, round_source 1 30],
        m_flux_elip = [Fin 5, Fin 5],
        m_fluxerr_elip = [Fin 1, Fin 1],
        m_rh = [Fin 1, Fin 1],
        m_seo_SN = [True, True]\<rparr>
        \<lparr>m_objects = [round_source 1 50],
        m_flux_elip = [Fin 5],
        m_fluxerr_elip = [Fin 1],
        m_rh = [Fin 1],
        m_seo_SN = [True]\<rparr> (store0 (datain step0))))"
  proof -
    let ?m = "\<lparr>m_objects = [round_source 2 20, round_source 1 30],
        m_flux_elip = [Fin 5, Fin 5],
        m_fluxerr_elip = [Fin 1, Fin 1],
        m_rh = [Fin 1, Fin 1],
        m_seo_SN = [True, True]\<rparr>"
    have fin: "isfinite (srcext_rhmean ?m) \<and> isfinite (srcext_rhstd ?m)
         \<and> isfinite (srcext_elmean ?m)
         \<and> isfinite (extractthersh (srcext_defaults\<lparr>bfactor := Fin 1\<rparr>))
         \<and> isfinite (bfactor (srcext_defaults\<lparr>bfactor := Fin 1\<rparr>))"
      by (simp add: stats_of_two round_source_def srcext_defaults_def)
    from getheadval_data0 blended_extract_and_measure fin show ?thesis
      by (rule run_srcextpy_eq)
  qed
  show ?thesis
    unfolding run
    by (simp add: result_table_Inr srcext_out_simps make_table_def bmask_def round_source_def
        srcext_defaults_def)
qed

section \<open>Facts about the flux calibration run\<close>

lemma fluxcal_out_simps:
  "header (fluxcal_out b_ml bzero d) ''PHOTZP'' =
     Some (fneg b_ml, ''Photometric zeropoint MAG=-2.5*log(data)+PHOTZP'')"
  "header (fluxcal_out b_ml bzero d) ''PHOTZPER'' =
     Some (Fin 0, ''Uncertainty of the photometric zeropoint'')"
  "image (fluxcal_out b_ml bzero d) =
     rescale (fmul (Fin 3631) (fpow10 (fdiv b_ml (Fin 2.5)))) bzero (image d)"
  "tables (fluxcal_out b_ml bzero d) = tables d"
  "key \<noteq> ''PHOTZP'' \<Longrightarrow> key \<noteq> ''PHOTZPER'' \<Longrightarrow>
     header (fluxcal_out b_ml bzero d) key = header d key"
  by (simp_all add: fluxcal_out_def put_header_def Let_def)

lemma run_fluxcalsex_eq:
  assumes "getheadval (st (datain self)) ''XBIN'' = Inr binning"
    and "fit_arrays lib binning seo_catalog query_table = Inr (x, data, eps_data)"
    and "nanpercentile (image (st (datain self))) (zeropercent args) = Inr bzero"
    and "isfinite (snd (minimize lib (\<lambda>params. nll params x data eps_data) (Fin 1, Fin (- 2))))"
  shows "run_fluxcalsex lib args seo_catalog query_table self st =
           Inr (self\<lparr>dataout := Some (datain self)\<rparr>,
                st(datain self := fluxcal_out
                     (snd (minimize lib (\<lambda>params. nll params x data eps_data) (Fin 1, Fin (- 2))))
                     bzero (st (datain self))))"
proof -
  have neg: "isfinite (fneg v) = isfinite v" for v
    by (cases v) simp_all
  show ?thesis
    using assms
    by (auto simp: run_fluxcalsex_def Let_def fluxcal_out_def setheadval_def put_header_def neg
        split: prod.splits)
qed

lemma run_fluxcalsex_raises:
  assumes "getheadval (st (datain self)) ''XBIN'' = Inr binning"
    and "fit_arrays lib binning seo_catalog query_table = Inr (x, data, eps_data)"
    and "\<not> isfinite (snd (minimize lib (\<lambda>params. nll params x data eps_data) (Fin 1, Fin (- 2))))"
  shows "run_fluxcalsex lib args seo_catalog query_table self st = Inl ValueError"
proof -
  have neg: "isfinite (fneg v) = isfinite v" for v
    by (cases v) simp_all
  show ?thesis
    using assms
    by (auto simp: run_fluxcalsex_def Let_def setheadval_def neg split: prod.splits)
qed

lemma run_fluxcalsex_Inr:
  assumes "run_fluxcalsex lib args seo_catalog query_table self st = Inr (self', st')"
  obtains binning x data eps_data bzero where
    "getheadval (st (datain self)) ''XBIN'' = Inr binning"
    "fit_arrays lib binning seo_catalog query_table = Inr (x, data, eps_data)"
    "nanpercentile (image (st (datain self))) (zeropercent args) = Inr bzero"
    "self' = self\<lparr>dataout := Some (datain self)\<rparr>"
    "st' = st(datain self := fluxcal_out
                     (snd (minimize lib (\<lambda>params. nll params x data eps_data) (Fin 1, Fin (- 2))))
                     bzero (st (datain self)))"
    "isfinite (snd (minimize lib (\<lambda>params. nll params x data eps_data) (Fin 1, Fin (- 2))))"
proof -
  from assms obtain binning p where
    b: "getheadval (st (datain self)) ''XBIN'' = Inr binning"
    and p: "fit_arrays lib binning seo_catalog query_table = Inr p"
    unfolding run_fluxcalsex_def bind_err_Inr_iff by blast
  obtain x data eps_data where xde: "p = (x, data, eps_data)" by (cases p)
  have fin: "isfinite (snd (minimize lib (\<lambda>params. nll params x data eps_data) (Fin 1, Fin (- 2))))"
  proof (rule ccontr)
    assume "\<not> isfinite (snd (minimize lib (\<lambda>params. nll params x data eps_data)
                            (Fin 1, Fin (- 2))))"
    with b p [unfolded xde]
    have "run_fluxcalsex lib args seo_catalog query_table self st = Inl ValueError"
      by (rule run_fluxcalsex_raises)
    with assms show False by simp
  qed
  have neg: "isfinite (fneg v) = isfinite v" for v
    by (cases v) simp_all
  from assms fin obtain bzero where
    z: "nanpercentile (image (st (datain self))) (zeropercent args) = Inr bzero"
    unfolding run_fluxcalsex_def b p xde bind_err_Inr
    by (auto simp: Let_def setheadval_def put_header_def neg bind_err_Inr_iff split: prod.splits)
  from assms run_fluxcalsex_eq [where st = st and self = self, OF b p [unfolded xde] z fin]
  have "self' = self\<lparr>dataout := Some (datain self)\<rparr>"
    "st' = st(datain self := fluxcal_out
                     (snd (minimize lib (\<lambda>params. nll params x data eps_data) (Fin 1, Fin (- 2))))
                     bzero (st (datain self)))"
    by simp_all
  with b p xde z fin show thesis using that by blast
qed

lemma bmask_zip_fst:
  "length xs = length ms \<Longrightarrow>
   bmask (map f xs) (map p ms) = map (\<lambda>(g, m). f g) (filter (\<lambda>(g, m). p m) (zip xs ms))"
  by (induction xs ms rule: list_induct2) (auto simp: bmask_def)

lemma bmask_zip_snd:
  "length xs = length ms \<Longrightarrow>
   bmask (map h ms) (map p ms) = map (\<lambda>(g, m). h m) (filter (\<lambda>(g, m). p m) (zip xs ms))"
  by (induction xs ms rule: list_induct2) (auto simp: bmask_def)

lemma fit_arrays_Inr:
  assumes "fit_arrays lib binning seo_catalog query_table = Inr (x, data, eps_data)"
  obtains ms where
    "match_to_catalog_sky lib (map (\<lambda>r. (gsc_ra r, gsc_dec r)) (gsc_usable query_table))
       (bmask (map (\<lambda>r. (ALPHA_J2000 r, DELTA_J2000 r)) seo_catalog) (seo_SN seo_catalog)) = Inr ms"
    "length ms = length (gsc_usable query_table)"
    "\<forall>(i, d) \<in> set ms. i < length (bmask (seo_Mag seo_catalog) (seo_SN seo_catalog))"
    "x = map (\<lambda>(g, i, d). gsc_mag g)
           (filter (\<lambda>(g, i, d). flt d (dist_value binning)) (zip (gsc_usable query_table) ms))"
    "data = map (\<lambda>(g, i, d). bmask (seo_Mag seo_catalog) (seo_SN seo_catalog) ! i)
           (filter (\<lambda>(g, i, d). flt d (dist_value binning)) (zip (gsc_usable query_table) ms))"
    "eps_data = map (\<lambda>(g, i, d). fsqrt (fadd (fmul (gsc_magerr g) (gsc_magerr g))
                  (fmul (bmask (seo_MagErr seo_catalog) (seo_SN seo_catalog) ! i)
                        (bmask (seo_MagErr seo_catalog) (seo_SN seo_catalog) ! i))))
           (filter (\<lambda>(g, i, d). flt d (dist_value binning)) (zip (gsc_usable query_table) ms))"
proof -
  let ?gsc = "gsc_usable query_table"
  let ?mag = "bmask (seo_Mag seo_catalog) (seo_SN seo_catalog)"
  let ?err = "bmask (seo_MagErr seo_catalog) (seo_SN seo_catalog)"
  from assms obtain ms where
    ms: "match_to_catalog_sky lib (map (\<lambda>r. (gsc_ra r, gsc_dec r)) ?gsc)
       (bmask (map (\<lambda>r. (ALPHA_J2000 r, DELTA_J2000 r)) seo_catalog) (seo_SN seo_catalog)) = Inr ms"
    unfolding fit_arrays_def Let_def bind_err_Inr_iff by blast
  from assms have len: "length ms = length ?gsc"
    unfolding fit_arrays_def Let_def ms bind_err_Inr by (auto split: if_splits)
  from assms len obtain e m where
    e: "take_along_axis ?err (map fst ms) = Inr e"
    and m: "take_along_axis ?mag (map fst ms) = Inr m"
    and res: "(x, data, eps_data) =
        (bmask (map gsc_mag ?gsc) (map (\<lambda>d. flt d (dist_value binning)) (map snd ms)),
         bmask m (map (\<lambda>d. flt d (dist_value binning)) (map snd ms)),
         map fsqrt (map2 fadd
            (map (\<lambda>v. fmul v v) (bmask (map gsc_magerr ?gsc)
                (map (\<lambda>d. flt d (dist_value binning)) (map snd ms))))
            (map (\<lambda>v. fmul v v) (bmask e
                (map (\<lambda>d. flt d (dist_value binning)) (map snd ms))))))"
    unfolding fit_arrays_def Let_def ms bind_err_Inr
    by (auto simp: bind_err_Inr_iff split: if_splits)
  from m have valid: "\<forall>(i, d) \<in> set ms. i < length ?mag"
    and m': "m = map (\<lambda>p. ?mag ! fst p) ms"
    by (auto simp: take_along_axis_Inr o_def)
  from e have e': "e = map (\<lambda>p. ?err ! fst p) ms"
    by (auto simp: take_along_axis_Inr o_def)
  let ?kept = "filter (\<lambda>(g, i, d). flt d (dist_value binning)) (zip ?gsc ms)"
  have near: "map (\<lambda>d. flt d (dist_value binning)) (map snd ms)
                = map (\<lambda>p. flt (snd p) (dist_value binning)) ms"
    by simp
  have flt_eq: "(\<lambda>(g, m). flt (snd m) (dist_value binning)) = (\<lambda>(g, i, d). flt d (dist_value binning))"
    by (simp add: fun_eq_iff)
  have x: "x = map (\<lambda>(g, i, d). gsc_mag g) ?kept"
    using res len unfolding near
    by (simp add: bmask_zip_fst [OF len [symmetric]] flt_eq case_prod_unfold)
  have d: "data = map (\<lambda>(g, i, d). ?mag ! i) ?kept"
    using res len unfolding near m'
    by (simp add: bmask_zip_snd [OF len [symmetric]] flt_eq case_prod_unfold)
  have G: "bmask (map gsc_magerr ?gsc) (map (\<lambda>p. flt (snd p) (dist_value binning)) ms)
             = map (\<lambda>(g, i, d). gsc_magerr g) ?kept"
    by (simp add: bmask_zip_fst [OF len [symmetric]] flt_eq case_prod_unfold)
  have E: "bmask e (map (\<lambda>p. flt (snd p) (dist_value binning)) ms)
             = map (\<lambda>(g, i, d). ?err ! i) ?kept"
    unfolding e'
    by (simp add: bmask_zip_snd [OF len [symmetric]] flt_eq case_prod_unfold)
  from res have "eps_data = map fsqrt (map2 fadd
            (map (\<lambda>v. fmul v v) (bmask (map gsc_magerr ?gsc)
                (map (\<lambda>p. flt (snd p) (dist_value binning)) ms)))
            (map (\<lambda>v. fmul v v) (bmask e
                (map (\<lambda>p. flt (snd p) (dist_value binning)) ms))))"
    unfolding near by simp
  also have "\<dots> = map fsqrt (map2 fadd
            (map (\<lambda>r. fmul ((\<lambda>(g, i, d). gsc_magerr g) r) ((\<lambda>(g, i, d). gsc_magerr g) r)) ?kept)
            (map (\<lambda>r. fmul ((\<lambda>(g, i, d). ?err ! i) r) ((\<lambda>(g, i, d). ?err ! i) r)) ?kept))"
    unfolding G E by (simp only: map_map o_def)
  also have "\<dots> = map (\<lambda>(g, i, d). fsqrt (fadd (fmul (gsc_magerr g) (gsc_magerr g))
                  (fmul (?err ! i) (?err ! i)))) ?kept"
    unfolding map2_same by (simp add: case_prod_unfold)
  finally have ep: "eps_data = map (\<lambda>(g, i, d). fsqrt (fadd (fmul (gsc_magerr g) (gsc_magerr g))
                  (fmul (?err ! i) (?err ! i)))) ?kept" .
  show thesis
    using that [OF ms len valid x d ep] .
qed

lemma one_star_selected: "seo_SN one_star = [True]"
  by (simp add: seo_SN_def one_star_def fgt_def fsub_def)

lemma dist_value_Fin: "dist_value (Fin b) = Fin (0.76 * b / 3600)"
  by (simp add: dist_value_def)

lemma one_star_mag: "seo_Mag one_star = [Fin 0]"
  by (simp add: seo_Mag_def one_star_def)

lemma one_star_magerr: "seo_MagErr one_star = [Fin (1 / (8 * ln 10))]"
  by (simp add: seo_MagErr_def one_star_def)

lemma one_eps_nonneg: "\<not> 1 / 100 + 1 / (64 * (ln 10 * ln 10)) < (0::real)"
  by (simp add: not_less add_nonneg_nonneg)

lemma one_fit_arrays:
  "fit_arrays (fit_stub one_match) (Fin 1) one_star one_entry =
     Inr ([Fin 2], [Fin 0], [Fin (sqrt (1 / 100 + 1 / (64 * (ln 10 * ln 10))))])"
  unfolding fit_arrays_def Let_def one_star_selected one_star_mag one_star_magerr
  by (simp add: gsc_usable_def one_entry_def bmask_def fgt_def fit_stub_def
      one_match_def dist_value_Fin take_along_axis_simps one_star_def one_eps_nonneg)

lemma two_fit_arrays:
  "fit_arrays (fit_stub two_matches) (Fin 1) one_star three_entries =
     Inr ([Fin 2], [Fin 0], [Fin (sqrt (1 / 100 + 1 / (64 * (ln 10 * ln 10))))])"
  unfolding fit_arrays_def Let_def one_star_selected one_star_mag one_star_magerr
  by (simp add: gsc_usable_def three_entries_def bmask_def fgt_def fit_stub_def
      two_matches_def dist_value_Fin take_along_axis_simps one_star_def one_eps_nonneg)

lemma np_sort_single: "np_sort [v] = [v]"
  by (simp add: np_sort_def)

lemma nanpercentile_data0: "0 \<le> q \<Longrightarrow> q \<le> 100 \<Longrightarrow> nanpercentile (image data0) q = Inr (Fin 1)"
  by (simp add: nanpercentile_def data0_def np_sort_single Let_def fsub_def)

lemma one_run:
  "run_fluxcalsex (fit_stub one_match) fluxcal_defaults one_star one_entry step0 store0 =
     Inr (step0\<lparr>dataout := Some 0\<rparr>, store0(0 := fluxcal_out (Fin (- 2)) (Fin 1) data0))"
proof -
  have z: "nanpercentile (image (store0 (datain step0))) (zeropercent fluxcal_defaults) = Inr (Fin 1)"
    by (simp add: store0_def nanpercentile_data0 fluxcal_defaults_def)
  have fin: "isfinite (snd (minimize (fit_stub one_match) objective (Fin 1, Fin (- 2))))"
    for objective
    by (simp add: fit_stub_def)
  from run_fluxcalsex_eq [where st = store0 and self = step0,
      OF getheadval_data0 one_fit_arrays z fin]
  show ?thesis
    by (simp add: fit_stub_def step0_def store0_def)
qed

lemma nanpercentile_Inr:
  assumes "0 \<le> q" "q \<le> 100"
  shows "\<exists>z. nanpercentile im q = Inr z"
  using assms by (simp add: nanpercentile_def Let_def)

section \<open>Too few matches\<close>

text \<open>
  Claim C1, as the code has it. The run has no check on the number of retained pairs.
  When fewer than 2 pairs are retained (also when there is none) and nothing else fails
  (the binning keyword is present, the matching and the indexing succeed, the percentile
  is in range), the run hands the retained pairs to the minimiser. When the intercept the
  minimiser returns is finite, the run completes and writes its negation as PHOTZP; when
  it is NaN or infinite, the header refuses it and the run raises ValueError at line 185.
  In neither case does the run report a failure for the number of pairs.
\<close>

theorem fit_runs_on_fewer_than_two_pairs:
  assumes xbin: "header (st (datain self)) ''XBIN'' = Some (binning, c)"
    and fit: "fit_arrays lib binning seo_catalog query_table = Inr (x, data, eps_data)"
    and few: "length x < 2"
    and q: "0 \<le> zeropercent args" "zeropercent args \<le> 100"
  shows "(isfinite (snd (minimize lib (\<lambda>params. nll params x data eps_data) (Fin 1, Fin (- 2))))
          \<longrightarrow> (\<exists>self' st'. run_fluxcalsex lib args seo_catalog query_table self st
                              = Inr (self', st'))
            \<and> result_headval (run_fluxcalsex lib args seo_catalog query_table self st) ''PHOTZP''
                = Some (fneg (snd (minimize lib (\<lambda>params. nll params x data eps_data)
                                     (Fin 1, Fin (- 2))))))
       \<and> (\<not> isfinite (snd (minimize lib (\<lambda>params. nll params x data eps_data)
                               (Fin 1, Fin (- 2))))
          \<longrightarrow> run_fluxcalsex lib args seo_catalog query_table self st = Inl ValueError)"
proof -
  have head: "getheadval (st (datain self)) ''XBIN'' = Inr binning"
    by (simp add: getheadval_def xbin)
  from q obtain bzero where
    z: "nanpercentile (image (st (datain self))) (zeropercent args) = Inr bzero"
    using nanpercentile_Inr by blast
  have completes: "(\<exists>self' st'. run_fluxcalsex lib args seo_catalog query_table self st
                              = Inr (self', st'))
            \<and> result_headval (run_fluxcalsex lib args seo_catalog query_table self st) ''PHOTZP''
                = Some (fneg (snd (minimize lib (\<lambda>params. nll params x data eps_data)
                                     (Fin 1, Fin (- 2)))))"
    if fin: "isfinite (snd (minimize lib (\<lambda>params. nll params x data eps_data)
                                  (Fin 1, Fin (- 2))))"
  proof -
    have run: "run_fluxcalsex lib args seo_catalog query_table self st =
           Inr (self\<lparr>dataout := Some (datain self)\<rparr>,
                st(datain self := fluxcal_out
                     (snd (minimize lib (\<lambda>params. nll params x data eps_data) (Fin 1, Fin (- 2))))
                     bzero (st (datain self))))"
      using head fit z fin by (rule run_fluxcalsex_eq)
    show ?thesis
      unfolding run by (simp add: result_headval_Inr fluxcal_out_simps)
  qed
  have raises: "run_fluxcalsex lib args seo_catalog query_table self st = Inl ValueError"
    if "\<not> isfinite (snd (minimize lib (\<lambda>params. nll params x data eps_data)
                               (Fin 1, Fin (- 2))))"
    using head fit that by (rule run_fluxcalsex_raises)
  from completes raises show ?thesis by blast
qed

text \<open>The statement at one usable catalog entry matched to one star.\<close>

theorem fit_runs_on_fewer_than_two_pairs_witness:
  "fit_arrays (fit_stub one_match) (Fin 1) one_star one_entry =
     Inr ([Fin 2], [Fin 0], [Fin (sqrt (1 / 100 + 1 / (64 * (ln 10 * ln 10))))])
   \<and> length [Fin (2::real)] < 2
   \<and> isfinite (snd (minimize (fit_stub one_match)
        (\<lambda>params. nll params [Fin 2] [Fin 0] [Fin (sqrt (1 / 100 + 1 / (64 * (ln 10 * ln 10))))])
        (Fin 1, Fin (- 2))))
   \<and> (\<exists>self' st'. run_fluxcalsex (fit_stub one_match) fluxcal_defaults one_star one_entry
          step0 store0 = Inr (self', st'))"
proof -
  have xbin: "header (store0 (datain step0)) ''XBIN'' = Some (Fin 1, '''')"
    by (simp add: store0_def data0_def)
  have few: "length [Fin (2::real)] < 2" by simp
  have q: "0 \<le> zeropercent fluxcal_defaults" "zeropercent fluxcal_defaults \<le> 100"
    by (simp_all add: fluxcal_defaults_def)
  have fin: "isfinite (snd (minimize (fit_stub one_match)
        (\<lambda>params. nll params [Fin 2] [Fin 0] [Fin (sqrt (1 / 100 + 1 / (64 * (ln 10 * ln 10))))])
        (Fin 1, Fin (- 2))))"
    by (simp add: fit_stub_def)
  from fit_runs_on_fewer_than_two_pairs [where st = store0 and self = step0,
      OF xbin one_fit_arrays few q] fin
  show ?thesis
    using one_fit_arrays by auto
qed

text \<open>
  The catalog answer has one usable entry and one pair is retained. The run returns a
  result, not a failure, and the header carries the zero point 2 that comes from the
  minimiser's answer \<open>(1, -2)\<close>.
\<close>

theorem single_match_fit_attempted_counterexample:
  "length (gsc_usable one_entry) = 1
   \<and> fit_arrays (fit_stub one_match) (Fin 1) one_star one_entry =
       Inr ([Fin 2], [Fin 0], [Fin (sqrt (1 / 100 + 1 / (64 * (ln 10 * ln 10))))])
   \<and> run_fluxcalsex (fit_stub one_match) fluxcal_defaults one_star one_entry step0 store0 =
       Inr (step0\<lparr>dataout := Some 0\<rparr>, store0(0 := fluxcal_out (Fin (- 2)) (Fin 1) data0))
   \<and> result_headval (run_fluxcalsex (fit_stub one_match) fluxcal_defaults one_star one_entry
        step0 store0) ''PHOTZP'' = Some (Fin 2)"
proof -
  have usable: "length (gsc_usable one_entry) = 1"
    by (simp add: gsc_usable_def one_entry_def bmask_def fgt_def)
  show ?thesis
    using usable by (simp add: one_fit_arrays one_run result_headval_def fluxcal_out_simps)
qed


section \<open>The pairs used for the fit\<close>

text \<open>
  Claim C7. In a completed run the arrays handed to the minimiser hold, in order,
  exactly the matched pairs whose separation is strictly below \<open>dist_value\<close>; a pair
  at or above it is not among them. For a finite binning, \<open>dist_value\<close> is
  \<open>0.76 * binning / 3600\<close> degrees, one pixel.
\<close>

theorem retained_pairs_within_one_pixel:
  assumes "run_fluxcalsex lib args seo_catalog query_table self st = Inr (self', st')"
  shows "\<exists>binning ms x data eps_data.
      getheadval (st (datain self)) ''XBIN'' = Inr binning
    \<and> match_to_catalog_sky lib (map (\<lambda>r. (gsc_ra r, gsc_dec r)) (gsc_usable query_table))
         (bmask (map (\<lambda>r. (ALPHA_J2000 r, DELTA_J2000 r)) seo_catalog) (seo_SN seo_catalog))
        = Inr ms
    \<and> fit_arrays lib binning seo_catalog query_table = Inr (x, data, eps_data)
    \<and> result_headval (Inr (self', st')) ''PHOTZP''
        = Some (fneg (snd (minimize lib (\<lambda>params. nll params x data eps_data)
                             (Fin 1, Fin (- 2)))))
    \<and> (let kept = filter (\<lambda>(g, i, d). flt d (dist_value binning))
                     (zip (gsc_usable query_table) ms)
       in x = map (\<lambda>(g, i, d). gsc_mag g) kept
        \<and> data = map (\<lambda>(g, i, d). bmask (seo_Mag seo_catalog) (seo_SN seo_catalog) ! i) kept
        \<and> length eps_data = length kept
        \<and> (\<forall>(g, i, d) \<in> set kept. flt d (dist_value binning)))
    \<and> (\<forall>b. binning = Fin b \<longrightarrow> dist_value binning = Fin (0.76 * b / 3600))"
proof -
  from assms obtain binning x data eps_data bzero where
    head: "getheadval (st (datain self)) ''XBIN'' = Inr binning"
    and fit: "fit_arrays lib binning seo_catalog query_table = Inr (x, data, eps_data)"
    and self': "self' = self\<lparr>dataout := Some (datain self)\<rparr>"
    and st': "st' = st(datain self := fluxcal_out
                     (snd (minimize lib (\<lambda>params. nll params x data eps_data) (Fin 1, Fin (- 2))))
                     bzero (st (datain self)))"
    by (rule run_fluxcalsex_Inr)
  from fit obtain ms where
    ms: "match_to_catalog_sky lib (map (\<lambda>r. (gsc_ra r, gsc_dec r)) (gsc_usable query_table))
       (bmask (map (\<lambda>r. (ALPHA_J2000 r, DELTA_J2000 r)) seo_catalog) (seo_SN seo_catalog)) = Inr ms"
    and x: "x = map (\<lambda>(g, i, d). gsc_mag g)
           (filter (\<lambda>(g, i, d). flt d (dist_value binning)) (zip (gsc_usable query_table) ms))"
    and d: "data = map (\<lambda>(g, i, d). bmask (seo_Mag seo_catalog) (seo_SN seo_catalog) ! i)
           (filter (\<lambda>(g, i, d). flt d (dist_value binning)) (zip (gsc_usable query_table) ms))"
    and e: "eps_data = map (\<lambda>(g, i, d). fsqrt (fadd (fmul (gsc_magerr g) (gsc_magerr g))
                  (fmul (bmask (seo_MagErr seo_catalog) (seo_SN seo_catalog) ! i)
                        (bmask (seo_MagErr seo_catalog) (seo_SN seo_catalog) ! i))))
           (filter (\<lambda>(g, i, d). flt d (dist_value binning)) (zip (gsc_usable query_table) ms))"
    by (rule fit_arrays_Inr)
  have zp: "result_headval (Inr (self', st')) ''PHOTZP''
        = Some (fneg (snd (minimize lib (\<lambda>params. nll params x data eps_data)
                             (Fin 1, Fin (- 2)))))"
    by (simp add: self' st' result_headval_Inr fluxcal_out_simps)
  have kept: "let kept = filter (\<lambda>(g, i, d). flt d (dist_value binning))
                     (zip (gsc_usable query_table) ms)
       in x = map (\<lambda>(g, i, d). gsc_mag g) kept
        \<and> data = map (\<lambda>(g, i, d). bmask (seo_Mag seo_catalog) (seo_SN seo_catalog) ! i) kept
        \<and> length eps_data = length kept
        \<and> (\<forall>(g, i, d) \<in> set kept. flt d (dist_value binning))"
    unfolding Let_def using x d e by auto
  have "\<forall>b. binning = Fin b \<longrightarrow> dist_value binning = Fin (0.76 * b / 3600)"
    by (simp add: dist_value_Fin)
  with head ms fit zp kept show ?thesis by blast
qed

lemma two_run:
  "run_fluxcalsex (fit_stub two_matches) fluxcal_defaults one_star three_entries step0 store0 =
     Inr (step0\<lparr>dataout := Some 0\<rparr>, store0(0 := fluxcal_out (Fin (- 2)) (Fin 1) data0))"
proof -
  have z: "nanpercentile (image (store0 (datain step0))) (zeropercent fluxcal_defaults) = Inr (Fin 1)"
    by (simp add: store0_def nanpercentile_data0 fluxcal_defaults_def)
  have fin: "isfinite (snd (minimize (fit_stub two_matches) objective (Fin 1, Fin (- 2))))"
    for objective
    by (simp add: fit_stub_def)
  from run_fluxcalsex_eq [where st = store0 and self = step0,
      OF getheadval_data0 two_fit_arrays z fin]
  show ?thesis
    by (simp add: fit_stub_def step0_def store0_def)
qed

text \<open>The statement at two matches of which one is further than one pixel away.\<close>

theorem retained_pairs_within_one_pixel_witness:
  "run_fluxcalsex (fit_stub two_matches) fluxcal_defaults one_star three_entries step0 store0 =
     Inr (step0\<lparr>dataout := Some 0\<rparr>, store0(0 := fluxcal_out (Fin (- 2)) (Fin 1) data0))
   \<and> (\<exists>binning x data eps_data.
        getheadval (store0 (datain step0)) ''XBIN'' = Inr binning
      \<and> fit_arrays (fit_stub two_matches) binning one_star three_entries = Inr (x, data, eps_data)
      \<and> x = map (\<lambda>(g, i, d). gsc_mag g) (filter (\<lambda>(g, i, d). flt d (dist_value binning))
                     (zip (gsc_usable three_entries) two_matches)))"
proof -
  note run = two_run
  have m: "match_to_catalog_sky (fit_stub two_matches) a b = Inr two_matches" for a b
    by (simp add: fit_stub_def)
  from retained_pairs_within_one_pixel [OF run]
  show ?thesis
    using run unfolding m by (auto simp: Let_def)
qed

section \<open>The rescaled image\<close>

lemma result_image_Inr:
  "result_image (Inr (self\<lparr>dataout := Some out\<rparr>, st')) = Some (image (st' out))"
  by (simp add: result_image_def)

text \<open>
  Claim C5. In a completed run, with \<open>b_ml\<close> the intercept the minimiser returned, the
  image of the output object is \<open>bscale * (image - bzero)\<close> pixel by pixel, where
  \<open>image\<close> is the image of the input object, \<open>bzero\<close> is its percentile at the
  configured \<open>zeropercent\<close> and \<open>bscale = 3631 * 10 ** (b_ml / 2.5)\<close>. It is one
  application of a closed formula.
\<close>

theorem image_rescaled:
  assumes "run_fluxcalsex lib args seo_catalog query_table self st = Inr (self', st')"
  shows "\<exists>binning x data eps_data b_ml bzero.
      getheadval (st (datain self)) ''XBIN'' = Inr binning
    \<and> fit_arrays lib binning seo_catalog query_table = Inr (x, data, eps_data)
    \<and> b_ml = snd (minimize lib (\<lambda>params. nll params x data eps_data) (Fin 1, Fin (- 2)))
    \<and> nanpercentile (image (st (datain self))) (zeropercent args) = Inr bzero
    \<and> result_image (Inr (self', st'))
        = Some (map (map (\<lambda>v. fmul (fmul (Fin 3631) (fpow10 (fdiv b_ml (Fin 2.5)))) (fsub v bzero)))
                  (image (st (datain self))))
    \<and> (\<forall>b. b_ml = Fin b \<longrightarrow>
          fmul (Fin 3631) (fpow10 (fdiv b_ml (Fin 2.5))) = Fin (3631 * 10 powr (b / 2.5)))"
proof -
  from assms obtain binning x data eps_data bzero where
    head: "getheadval (st (datain self)) ''XBIN'' = Inr binning"
    and fit: "fit_arrays lib binning seo_catalog query_table = Inr (x, data, eps_data)"
    and z: "nanpercentile (image (st (datain self))) (zeropercent args) = Inr bzero"
    and self': "self' = self\<lparr>dataout := Some (datain self)\<rparr>"
    and st': "st' = st(datain self := fluxcal_out
                     (snd (minimize lib (\<lambda>params. nll params x data eps_data) (Fin 1, Fin (- 2))))
                     bzero (st (datain self)))"
    by (rule run_fluxcalsex_Inr)
  define b_ml where "b_ml = snd (minimize lib (\<lambda>params. nll params x data eps_data) (Fin 1, Fin (- 2)))"
  have im: "result_image (Inr (self', st'))
        = Some (map (map (\<lambda>v. fmul (fmul (Fin 3631) (fpow10 (fdiv b_ml (Fin 2.5)))) (fsub v bzero)))
                  (image (st (datain self))))"
    by (simp add: self' st' result_image_Inr fluxcal_out_simps rescale_def b_ml_def)
  have "\<forall>b. b_ml = Fin b \<longrightarrow>
          fmul (Fin 3631) (fpow10 (fdiv b_ml (Fin 2.5))) = Fin (3631 * 10 powr (b / 2.5))"
    by simp
  with head fit z im b_ml_def show ?thesis by blast
qed

text \<open>The statement at the one-pixel image.\<close>

theorem image_rescaled_witness:
  "run_fluxcalsex (fit_stub one_match) fluxcal_defaults one_star one_entry step0 store0 =
     Inr (step0\<lparr>dataout := Some 0\<rparr>, store0(0 := fluxcal_out (Fin (- 2)) (Fin 1) data0))
   \<and> (\<exists>b_ml bzero. result_image (run_fluxcalsex (fit_stub one_match) fluxcal_defaults one_star
          one_entry step0 store0)
        = Some (map (map (\<lambda>v. fmul (fmul (Fin 3631) (fpow10 (fdiv b_ml (Fin 2.5)))) (fsub v bzero)))
                  (image (store0 (datain step0)))))"
proof -
  note run = one_run
  from image_rescaled [OF run] show ?thesis
    using run by auto
qed

section \<open>The output object is the input object\<close>

text \<open>
  Claim C10. After a completed run of either step, \<open>dataout\<close> is the address that
  \<open>datain\<close> holds: the output is the input object itself, and no other object of the
  store has changed. The extraction step has set its five keywords and its two tables on
  that object, to the statistics and the tables of the two measured source sets, and left
  its image as it was. The flux calibration step has set PHOTZP to minus the fitted
  intercept and PHOTZPER to zero on it, has replaced its image by
  \<open>3631 * 10 ** (b_ml / 2.5) * (image - bzero)\<close>, where \<open>bzero\<close> is the percentile of the
  input image, and has left its tables and its other keywords as they were.
\<close>

theorem output_is_input_object:
  "(run_srcextpy sep argsort sargs self st = Inr (self', st') \<longrightarrow>
      dataout self' = Some (datain self) \<and> datain self' = datain self
    \<and> (\<forall>r. r \<noteq> datain self \<longrightarrow> st' r = st r)
    \<and> {''RHALF'', ''RHALFSTD'', ''ELONG'', ''EXTRACT_THRESH'', ''BRIGHT_FACTOR''}
         \<subseteq> dom (header (st' (datain self)))
    \<and> {''Low Threshold Sources'', ''High Threshold Sources''} \<subseteq> dom (tables (st' (datain self)))
    \<and> image (st' (datain self)) = image (st (datain self))
    \<and> (\<exists>lo hi.
          extract_and_measure sep argsort sargs (image (st (datain self))) = Inr (lo, hi)
        \<and> tables (st' (datain self)) =
            (tables (st (datain self)))
              (''Low Threshold Sources'' \<mapsto> make_table lo,
               ''High Threshold Sources'' \<mapsto> make_table hi)
        \<and> header (st' (datain self)) =
            (header (st (datain self)))
              (''RHALF'' \<mapsto> (nanmean (bmask (m_rh lo) (m_seo_SN lo)),
                               ''Mean half-power radius of stars (in pixels)''),
               ''RHALFSTD'' \<mapsto> (mad_std (bmask (m_rh lo) (m_seo_SN lo)),
                               ''STD of masked mean of half-power radius''),
               ''ELONG'' \<mapsto> (nanmean (map2 fdiv
                                   (bmask (map src_a (m_objects lo)) (m_seo_SN lo))
                                   (bmask (map src_b (m_objects lo)) (m_seo_SN lo))),
                               ''Mean elong of accepted sources''),
               ''EXTRACT_THRESH'' \<mapsto> (extractthersh sargs,
                               ''Extraction Thershold for Low Thershold Table''),
               ''BRIGHT_FACTOR'' \<mapsto> (bfactor sargs,
                               ''Multiplier to create High Threshold Table''))))
 \<and> (run_fluxcalsex lib fargs seo_catalog query_table self st = Inr (self'', st'') \<longrightarrow>
      dataout self'' = Some (datain self) \<and> datain self'' = datain self
    \<and> (\<forall>r. r \<noteq> datain self \<longrightarrow> st'' r = st r)
    \<and> {''PHOTZP'', ''PHOTZPER''} \<subseteq> dom (header (st'' (datain self)))
    \<and> (\<exists>binning x data eps_data bzero.
          getheadval (st (datain self)) ''XBIN'' = Inr binning
        \<and> fit_arrays lib binning seo_catalog query_table = Inr (x, data, eps_data)
        \<and> nanpercentile (image (st (datain self))) (zeropercent fargs) = Inr bzero
        \<and> header (st'' (datain self)) =
            (header (st (datain self)))
              (''PHOTZP'' \<mapsto>
                 (fneg (snd (minimize lib (\<lambda>params. nll params x data eps_data)
                               (Fin 1, Fin (- 2)))),
                  ''Photometric zeropoint MAG=-2.5*log(data)+PHOTZP''),
               ''PHOTZPER'' \<mapsto> (Fin 0, ''Uncertainty of the photometric zeropoint''))
        \<and> image (st'' (datain self)) =
            map (map (\<lambda>v. fmul (fmul (Fin 3631)
                              (fpow10 (fdiv (snd (minimize lib
                                   (\<lambda>params. nll params x data eps_data) (Fin 1, Fin (- 2))))
                                 (Fin 2.5))))
                            (fsub v bzero)))
              (image (st (datain self)))
        \<and> tables (st'' (datain self)) = tables (st (datain self))))"
proof (intro conjI impI)
  assume "run_srcextpy sep argsort sargs self st = Inr (self', st')"
  then obtain binning lo hi where
    em: "extract_and_measure sep argsort sargs (image (st (datain self))) = Inr (lo, hi)"
    and self': "self' = self\<lparr>dataout := Some (datain self)\<rparr>"
    and st': "st' = st(datain self := srcext_out sargs lo hi (st (datain self)))"
    by (rule run_srcextpy_Inr)
  show "dataout self' = Some (datain self)" "datain self' = datain self"
    by (simp_all add: self')
  show "\<forall>r. r \<noteq> datain self \<longrightarrow> st' r = st r"
    by (simp add: st')
  show "{''RHALF'', ''RHALFSTD'', ''ELONG'', ''EXTRACT_THRESH'', ''BRIGHT_FACTOR''}
         \<subseteq> dom (header (st' (datain self)))"
    by (simp add: st' srcext_out_simps dom_def)
  show "{''Low Threshold Sources'', ''High Threshold Sources''} \<subseteq> dom (tables (st' (datain self)))"
    by (simp add: st' srcext_out_simps dom_def)
  show "image (st' (datain self)) = image (st (datain self))"
    by (simp add: st' srcext_out_simps)
  have t: "tables (st' (datain self)) =
            (tables (st (datain self)))
              (''Low Threshold Sources'' \<mapsto> make_table lo,
               ''High Threshold Sources'' \<mapsto> make_table hi)"
    by (simp add: st' srcext_out_def put_header_def tableset_def)
  have h: "header (st' (datain self)) =
            (header (st (datain self)))
              (''RHALF'' \<mapsto> (nanmean (bmask (m_rh lo) (m_seo_SN lo)),
                               ''Mean half-power radius of stars (in pixels)''),
               ''RHALFSTD'' \<mapsto> (mad_std (bmask (m_rh lo) (m_seo_SN lo)),
                               ''STD of masked mean of half-power radius''),
               ''ELONG'' \<mapsto> (nanmean (map2 fdiv
                                   (bmask (map src_a (m_objects lo)) (m_seo_SN lo))
                                   (bmask (map src_b (m_objects lo)) (m_seo_SN lo))),
                               ''Mean elong of accepted sources''),
               ''EXTRACT_THRESH'' \<mapsto> (extractthersh sargs,
                               ''Extraction Thershold for Low Thershold Table''),
               ''BRIGHT_FACTOR'' \<mapsto> (bfactor sargs,
                               ''Multiplier to create High Threshold Table''))"
    by (simp add: st' srcext_out_def put_header_def tableset_def)
  from em t h show "\<exists>lo hi.
          extract_and_measure sep argsort sargs (image (st (datain self))) = Inr (lo, hi)
        \<and> tables (st' (datain self)) =
            (tables (st (datain self)))
              (''Low Threshold Sources'' \<mapsto> make_table lo,
               ''High Threshold Sources'' \<mapsto> make_table hi)
        \<and> header (st' (datain self)) =
            (header (st (datain self)))
              (''RHALF'' \<mapsto> (nanmean (bmask (m_rh lo) (m_seo_SN lo)),
                               ''Mean half-power radius of stars (in pixels)''),
               ''RHALFSTD'' \<mapsto> (mad_std (bmask (m_rh lo) (m_seo_SN lo)),
                               ''STD of masked mean of half-power radius''),
               ''ELONG'' \<mapsto> (nanmean (map2 fdiv
                                   (bmask (map src_a (m_objects lo)) (m_seo_SN lo))
                                   (bmask (map src_b (m_objects lo)) (m_seo_SN lo))),
                               ''Mean elong of accepted sources''),
               ''EXTRACT_THRESH'' \<mapsto> (extractthersh sargs,
                               ''Extraction Thershold for Low Thershold Table''),
               ''BRIGHT_FACTOR'' \<mapsto> (bfactor sargs,
                               ''Multiplier to create High Threshold Table''))"
    by blast
next
  assume "run_fluxcalsex lib fargs seo_catalog query_table self st = Inr (self'', st'')"
  then obtain binning x data eps_data bzero where
    head: "getheadval (st (datain self)) ''XBIN'' = Inr binning"
    and fit: "fit_arrays lib binning seo_catalog query_table = Inr (x, data, eps_data)"
    and z: "nanpercentile (image (st (datain self))) (zeropercent fargs) = Inr bzero"
    and self'': "self'' = self\<lparr>dataout := Some (datain self)\<rparr>"
    and st'': "st'' = st(datain self := fluxcal_out
                     (snd (minimize lib (\<lambda>params. nll params x data eps_data) (Fin 1, Fin (- 2))))
                     bzero (st (datain self)))"
    by (rule run_fluxcalsex_Inr)
  show "dataout self'' = Some (datain self)" "datain self'' = datain self"
    by (simp_all add: self'')
  show "\<forall>r. r \<noteq> datain self \<longrightarrow> st'' r = st r"
    by (simp add: st'')
  show "{''PHOTZP'', ''PHOTZPER''} \<subseteq> dom (header (st'' (datain self)))"
    by (simp add: st'' fluxcal_out_simps dom_def)
  have h: "header (st'' (datain self)) =
            (header (st (datain self)))
              (''PHOTZP'' \<mapsto>
                 (fneg (snd (minimize lib (\<lambda>params. nll params x data eps_data)
                               (Fin 1, Fin (- 2)))),
                  ''Photometric zeropoint MAG=-2.5*log(data)+PHOTZP''),
               ''PHOTZPER'' \<mapsto> (Fin 0, ''Uncertainty of the photometric zeropoint''))"
    by (simp add: st'' fluxcal_out_def put_header_def Let_def)
  have i: "image (st'' (datain self)) =
            map (map (\<lambda>v. fmul (fmul (Fin 3631)
                              (fpow10 (fdiv (snd (minimize lib
                                   (\<lambda>params. nll params x data eps_data) (Fin 1, Fin (- 2))))
                                 (Fin 2.5))))
                            (fsub v bzero)))
              (image (st (datain self)))"
    by (simp add: st'' fluxcal_out_simps rescale_def)
  have t: "tables (st'' (datain self)) = tables (st (datain self))"
    by (simp add: st'' fluxcal_out_simps)
  from head fit z h i t show "\<exists>binning x data eps_data bzero.
          getheadval (st (datain self)) ''XBIN'' = Inr binning
        \<and> fit_arrays lib binning seo_catalog query_table = Inr (x, data, eps_data)
        \<and> nanpercentile (image (st (datain self))) (zeropercent fargs) = Inr bzero
        \<and> header (st'' (datain self)) =
            (header (st (datain self)))
              (''PHOTZP'' \<mapsto>
                 (fneg (snd (minimize lib (\<lambda>params. nll params x data eps_data)
                               (Fin 1, Fin (- 2)))),
                  ''Photometric zeropoint MAG=-2.5*log(data)+PHOTZP''),
               ''PHOTZPER'' \<mapsto> (Fin 0, ''Uncertainty of the photometric zeropoint''))
        \<and> image (st'' (datain self)) =
            map (map (\<lambda>v. fmul (fmul (Fin 3631)
                              (fpow10 (fdiv (snd (minimize lib
                                   (\<lambda>params. nll params x data eps_data) (Fin 1, Fin (- 2))))
                                 (Fin 2.5))))
                            (fsub v bzero)))
              (image (st (datain self)))
        \<and> tables (st'' (datain self)) = tables (st (datain self))"
    by blast
qed

text \<open>The statement at the two concrete runs.\<close>

theorem output_is_input_object_witness:
  "run_srcextpy (sep_stub three_sources three_fluxes) insertion_argsort srcext_defaults step0 store0
     = Inr (step0\<lparr>dataout := Some 0\<rparr>,
          store0(0 := srcext_out srcext_defaults
        \<lparr>m_objects = [round_source 2 20, round_source 1 30, round_source 3 10],
        m_flux_elip = [Fin 5, Fin 5, Fin (- 5)],
        m_fluxerr_elip = [Fin 1, Fin 1, Fin 1],
        m_rh = [Fin 1, Fin 1, Fin 1],
        m_seo_SN = [True, True, True]\<rparr>
        \<lparr>m_objects = [round_source 2 20, round_source 1 30, round_source 3 10],
        m_flux_elip = [Fin 5, Fin 5, Fin (- 5)],
        m_fluxerr_elip = [Fin 1, Fin 1, Fin 1],
        m_rh = [Fin 1, Fin 1, Fin 1],
        m_seo_SN = [True, True, True]\<rparr> data0))
   \<and> run_fluxcalsex (fit_stub one_match) fluxcal_defaults one_star one_entry step0 store0 =
     Inr (step0\<lparr>dataout := Some 0\<rparr>, store0(0 := fluxcal_out (Fin (- 2)) (Fin 1) data0))
   \<and> dataout (step0\<lparr>dataout := Some 0\<rparr>) = Some (datain step0)"
proof -
  note ext = three_run
  note cal = one_run
  from output_is_input_object [where self = step0 and st = store0, THEN conjunct1, rule_format, OF ext]
  have "dataout (step0\<lparr>dataout := Some 0\<rparr>) = Some (datain step0)" by simp
  moreover from output_is_input_object [where self = step0 and st = store0, THEN conjunct2, rule_format, OF cal]
  have "dataout (step0\<lparr>dataout := Some 0\<rparr>) = Some (datain step0)" by simp
  ultimately show ?thesis using ext cal by simp
qed

section \<open>The objective of the fit\<close>

lemma fsum_Fin: "foldl fadd (Fin a) (map Fin rs) = Fin (a + sum_list rs)"
  by (induction rs arbitrary: a) (simp_all add: add.assoc)

lemma inv_sigma2_Fin:
  assumes "0 < ce * ce + ie * ie"
  shows "fdiv (Fin 1) (fmul (fsqrt (fadd (fmul (Fin ce) (Fin ce)) (fmul (Fin ie) (Fin ie))))
                            (fsqrt (fadd (fmul (Fin ce) (Fin ce)) (fmul (Fin ie) (Fin ie)))))
         = Fin (1 / (ce * ce + ie * ie))"
proof -
  define v where "v = ce * ce + ie * ie"
  have pos: "0 < v" using assms by (simp add: v_def)
  have "fsqrt (fadd (fmul (Fin ce) (Fin ce)) (fmul (Fin ie) (Fin ie))) = fsqrt (Fin v)"
    by (simp add: v_def)
  also have "\<dots> = Fin (sqrt v)"
    using pos by simp
  finally have eps: "fsqrt (fadd (fmul (Fin ce) (Fin ce)) (fmul (Fin ie) (Fin ie))) = Fin (sqrt v)" .
  have "fdiv (Fin 1) (fmul (Fin (sqrt v)) (Fin (sqrt v))) = Fin (1 / v)"
    using pos by simp
  then show ?thesis
    unfolding eps v_def .
qed

lemma nll_term_Fin:
  assumes "0 < ce * ce + ie * ie"
  shows "fmul (fmul (fsub (Fin inst) (fadd (fmul (Fin m) (Fin cat)) (Fin b)))
                    (fsub (Fin inst) (fadd (fmul (Fin m) (Fin cat)) (Fin b))))
              (fdiv (Fin 1) (fmul (fsqrt (fadd (fmul (Fin ce) (Fin ce)) (fmul (Fin ie) (Fin ie))))
                            (fsqrt (fadd (fmul (Fin ce) (Fin ce)) (fmul (Fin ie) (Fin ie))))))
         = Fin ((inst - (m * cat + b)) * (inst - (m * cat + b)) / (ce * ce + ie * ie))"
proof -
  have d: "fsub (Fin inst) (fadd (fmul (Fin m) (Fin cat)) (Fin b)) = Fin (inst - (m * cat + b))"
    by (simp add: fsub_def)
  show ?thesis
    unfolding inv_sigma2_Fin [OF assms] d by simp
qed

lemma nll_terms:
  assumes "\<forall>(cat, cat_err, inst, inst_err) \<in> set pairs. 0 < cat_err * cat_err + inst_err * inst_err"
  shows "map2 fmul
           (map (\<lambda>v. fmul v v)
              (map2 fsub (pairs_data pairs) (map (\<lambda>v. fadd (fmul (Fin m) v) (Fin b)) (pairs_x pairs))))
           (map (\<lambda>e. fdiv (Fin 1) (fmul e e)) (pairs_eps pairs))
         = map Fin (map (\<lambda>(cat, cat_err, inst, inst_err).
             (inst - (m * cat + b)) * (inst - (m * cat + b))
               / (cat_err * cat_err + inst_err * inst_err)) pairs)"
  using assms
proof (induction pairs)
  case Nil
  then show ?case by (simp add: pairs_x_def pairs_data_def pairs_eps_def)
next
  case (Cons p pairs)
  obtain cat cat_err inst inst_err where p: "p = (cat, cat_err, inst, inst_err)"
    by (cases p)
  from Cons.prems have pos: "0 < cat_err * cat_err + inst_err * inst_err"
    by (simp add: p)
  from Cons have IH: "map2 fmul
           (map (\<lambda>v. fmul v v)
              (map2 fsub (pairs_data pairs) (map (\<lambda>v. fadd (fmul (Fin m) v) (Fin b)) (pairs_x pairs))))
           (map (\<lambda>e. fdiv (Fin 1) (fmul e e)) (pairs_eps pairs))
         = map Fin (map (\<lambda>(cat, cat_err, inst, inst_err).
             (inst - (m * cat + b)) * (inst - (m * cat + b))
               / (cat_err * cat_err + inst_err * inst_err)) pairs)"
    by simp
  have split: "pairs_x (p # pairs) = Fin cat # pairs_x pairs"
    "pairs_data (p # pairs) = Fin inst # pairs_data pairs"
    "pairs_eps (p # pairs) =
       fsqrt (fadd (fmul (Fin cat_err) (Fin cat_err)) (fmul (Fin inst_err) (Fin inst_err)))
         # pairs_eps pairs"
    by (simp_all add: p pairs_x_def pairs_data_def pairs_eps_def)
  show ?case
    unfolding split list.map zip_Cons_Cons prod.case IH nll_term_Fin [OF pos]
    by (simp add: p)
qed

lemma nll_weighted_least_squares:
  assumes "\<forall>(cat, cat_err, inst, inst_err) \<in> set pairs. 0 < cat_err * cat_err + inst_err * inst_err"
  shows "nll (Fin m, Fin b) (pairs_x pairs) (pairs_data pairs) (pairs_eps pairs)
           = Fin (1 / 2 * wssr_inst_on_cat m b pairs)"
  unfolding nll_def residual_def Let_def prod.case nll_terms [OF assms] fsum_def fsum_Fin
  by (simp add: wssr_inst_on_cat_def)

lemma pairs_eps_alt:
  "pairs_eps pairs = map (\<lambda>(cat, cat_err, inst, inst_err).
      fsqrt (fadd (fmul (Fin cat_err) (Fin cat_err)) (fmul (Fin inst_err) (Fin inst_err)))) pairs"
  unfolding pairs_eps_def by (induction pairs) auto

text \<open>
  Claim C4, as the code has it. In a completed run the minimiser is called with the
  start point \<open>m = 1, b = -2\<close> and with the objective \<open>nll\<close> on the retained pairs,
  and PHOTZP is the negated intercept of the point it returns. For finite magnitudes and
  errors with a positive combined variance, that objective is half the sum of squared
  residuals of the model \<open>instrumental_mag = m * catalog_mag + b\<close> (the catalog
  magnitude is the regressor), weighted by the inverse of
  \<open>catalog_err\<^sup>2 + instrumental_err\<^sup>2\<close>.
\<close>

theorem zero_point_fit:
  assumes "run_fluxcalsex lib args seo_catalog query_table self st = Inr (self', st')"
  shows "\<exists>binning ms x data eps_data.
      getheadval (st (datain self)) ''XBIN'' = Inr binning
    \<and> match_to_catalog_sky lib (map (\<lambda>r. (gsc_ra r, gsc_dec r)) (gsc_usable query_table))
         (bmask (map (\<lambda>r. (ALPHA_J2000 r, DELTA_J2000 r)) seo_catalog) (seo_SN seo_catalog))
        = Inr ms
    \<and> fit_arrays lib binning seo_catalog query_table = Inr (x, data, eps_data)
    \<and> result_headval (Inr (self', st')) ''PHOTZP''
        = Some (fneg (snd (minimize lib (\<lambda>params. nll params x data eps_data)
                             (Fin 1, Fin (- 2)))))
    \<and> (\<forall>pairs m b.
          map (\<lambda>(g, i, d). (gsc_mag g, gsc_magerr g,
                 bmask (seo_Mag seo_catalog) (seo_SN seo_catalog) ! i,
                 bmask (seo_MagErr seo_catalog) (seo_SN seo_catalog) ! i))
            (filter (\<lambda>(g, i, d). flt d (dist_value binning)) (zip (gsc_usable query_table) ms))
          = map (\<lambda>(cat, cat_err, inst, inst_err). (Fin cat, Fin cat_err, Fin inst, Fin inst_err))
              pairs
        \<longrightarrow> (\<forall>(cat, cat_err, inst, inst_err) \<in> set pairs.
               0 < cat_err * cat_err + inst_err * inst_err)
        \<longrightarrow> nll (Fin m, Fin b) x data eps_data = Fin (1 / 2 * wssr_inst_on_cat m b pairs))"
proof -
  from assms obtain binning x data eps_data bzero where
    head: "getheadval (st (datain self)) ''XBIN'' = Inr binning"
    and fit: "fit_arrays lib binning seo_catalog query_table = Inr (x, data, eps_data)"
    and self': "self' = self\<lparr>dataout := Some (datain self)\<rparr>"
    and st': "st' = st(datain self := fluxcal_out
                     (snd (minimize lib (\<lambda>params. nll params x data eps_data) (Fin 1, Fin (- 2))))
                     bzero (st (datain self)))"
    by (rule run_fluxcalsex_Inr)
  let ?mag = "bmask (seo_Mag seo_catalog) (seo_SN seo_catalog)"
  let ?err = "bmask (seo_MagErr seo_catalog) (seo_SN seo_catalog)"
  from fit obtain ms where
    ms: "match_to_catalog_sky lib (map (\<lambda>r. (gsc_ra r, gsc_dec r)) (gsc_usable query_table))
       (bmask (map (\<lambda>r. (ALPHA_J2000 r, DELTA_J2000 r)) seo_catalog) (seo_SN seo_catalog)) = Inr ms"
    and x: "x = map (\<lambda>(g, i, d). gsc_mag g)
           (filter (\<lambda>(g, i, d). flt d (dist_value binning)) (zip (gsc_usable query_table) ms))"
    and d: "data = map (\<lambda>(g, i, d). ?mag ! i)
           (filter (\<lambda>(g, i, d). flt d (dist_value binning)) (zip (gsc_usable query_table) ms))"
    and e: "eps_data = map (\<lambda>(g, i, d). fsqrt (fadd (fmul (gsc_magerr g) (gsc_magerr g))
                  (fmul (?err ! i) (?err ! i))))
           (filter (\<lambda>(g, i, d). flt d (dist_value binning)) (zip (gsc_usable query_table) ms))"
    by (rule fit_arrays_Inr)
  let ?kept = "filter (\<lambda>(g, i, d). flt d (dist_value binning)) (zip (gsc_usable query_table) ms)"
  let ?F = "\<lambda>(g, i, d). (gsc_mag g, gsc_magerr g, ?mag ! i, ?err ! i)"
  let ?G = "\<lambda>(cat, cat_err, inst, inst_err). (Fin cat, Fin cat_err, Fin inst, Fin inst_err)"
  have zp: "result_headval (Inr (self', st')) ''PHOTZP''
        = Some (fneg (snd (minimize lib (\<lambda>params. nll params x data eps_data)
                             (Fin 1, Fin (- 2)))))"
    by (simp add: self' st' result_headval_Inr fluxcal_out_simps)
  have obj: "nll (Fin m, Fin b) x data eps_data = Fin (1 / 2 * wssr_inst_on_cat m b pairs)"
    if eq: "map ?F ?kept = map ?G pairs"
      and pos: "\<forall>(cat, cat_err, inst, inst_err) \<in> set pairs.
               0 < cat_err * cat_err + inst_err * inst_err"
    for pairs m b
  proof -
    have "x = map (\<lambda>(a, b, c, d). a) (map ?F ?kept)"
      unfolding x by (simp add: case_prod_unfold)
    also have "\<dots> = pairs_x pairs"
      unfolding eq pairs_x_def by (simp add: case_prod_unfold)
    finally have x': "x = pairs_x pairs" .
    have "data = map (\<lambda>(a, b, c, d). c) (map ?F ?kept)"
      unfolding d by (simp add: case_prod_unfold)
    also have "\<dots> = pairs_data pairs"
      unfolding eq pairs_data_def by (simp add: case_prod_unfold)
    finally have d': "data = pairs_data pairs" .
    have "eps_data = map (\<lambda>(a, b, c, d). fsqrt (fadd (fmul b b) (fmul d d))) (map ?F ?kept)"
      unfolding e by (simp add: case_prod_unfold)
    also have "\<dots> = pairs_eps pairs"
      unfolding eq pairs_eps_alt by (simp add: case_prod_unfold)
    finally have e': "eps_data = pairs_eps pairs" .
    show ?thesis
      unfolding x' d' e' using pos by (rule nll_weighted_least_squares)
  qed
  from head ms fit zp obj show ?thesis by blast
qed

text \<open>The statement at one retained pair.\<close>

lemma one_kept:
  "map (\<lambda>(g, i, d). (gsc_mag g, gsc_magerr g,
                 bmask (seo_Mag one_star) (seo_SN one_star) ! i,
                 bmask (seo_MagErr one_star) (seo_SN one_star) ! i))
     (filter (\<lambda>(g, i, d). flt d (dist_value (Fin 1))) (zip (gsc_usable one_entry) one_match))
   = map (\<lambda>(cat, cat_err, inst, inst_err). (Fin cat, Fin cat_err, Fin inst, Fin inst_err))
       [(2, 1 / 10, 0, 1 / (8 * ln 10))]"
  unfolding one_star_selected one_star_mag one_star_magerr
  by (simp add: gsc_usable_def one_entry_def bmask_def fgt_def one_match_def dist_value_Fin)

theorem zero_point_fit_witness:
  "run_fluxcalsex (fit_stub one_match) fluxcal_defaults one_star one_entry step0 store0 =
     Inr (step0\<lparr>dataout := Some 0\<rparr>, store0(0 := fluxcal_out (Fin (- 2)) (Fin 1) data0))
   \<and> nll (Fin 1, Fin (- 2)) [Fin 2] [Fin 0] [Fin (sqrt (1 / 100 + 1 / (64 * (ln 10 * ln 10))))]
       = Fin (1 / 2 * wssr_inst_on_cat 1 (- 2) [(2, 1 / 10, 0, 1 / (8 * ln 10))])"
proof -
  note run = one_run
  from zero_point_fit [OF run] obtain binning ms x data eps_data where
    head: "getheadval (store0 (datain step0)) ''XBIN'' = Inr binning"
    and ms: "match_to_catalog_sky (fit_stub one_match)
         (map (\<lambda>r. (gsc_ra r, gsc_dec r)) (gsc_usable one_entry))
         (bmask (map (\<lambda>r. (ALPHA_J2000 r, DELTA_J2000 r)) one_star) (seo_SN one_star)) = Inr ms"
    and fit: "fit_arrays (fit_stub one_match) binning one_star one_entry = Inr (x, data, eps_data)"
    and obj: "\<forall>pairs m b.
          map (\<lambda>(g, i, d). (gsc_mag g, gsc_magerr g,
                 bmask (seo_Mag one_star) (seo_SN one_star) ! i,
                 bmask (seo_MagErr one_star) (seo_SN one_star) ! i))
            (filter (\<lambda>(g, i, d). flt d (dist_value binning)) (zip (gsc_usable one_entry) ms))
          = map (\<lambda>(cat, cat_err, inst, inst_err). (Fin cat, Fin cat_err, Fin inst, Fin inst_err))
              pairs
        \<longrightarrow> (\<forall>(cat, cat_err, inst, inst_err) \<in> set pairs.
               0 < cat_err * cat_err + inst_err * inst_err)
        \<longrightarrow> nll (Fin m, Fin b) x data eps_data = Fin (1 / 2 * wssr_inst_on_cat m b pairs)"
    by blast
  from head have binning: "binning = Fin 1"
    by (simp add: getheadval_data0)
  from ms have ms': "ms = one_match"
    by (simp add: fit_stub_def)
  from fit have arrays: "x = [Fin 2]" "data = [Fin 0]"
    "eps_data = [Fin (sqrt (1 / 100 + 1 / (64 * (ln 10 * ln 10))))]"
    unfolding binning one_fit_arrays by simp_all
  let ?P = "[(2, 1 / 10, 0, 1 / (8 * ln 10))] :: (real \<times> real \<times> real \<times> real) list"
  have pos: "\<forall>(cat, cat_err, inst, inst_err) \<in> set ?P.
               0 < cat_err * cat_err + inst_err * inst_err"
    by (simp add: add_pos_nonneg)
  from obj have "map (\<lambda>(g, i, d). (gsc_mag g, gsc_magerr g,
                 bmask (seo_Mag one_star) (seo_SN one_star) ! i,
                 bmask (seo_MagErr one_star) (seo_SN one_star) ! i))
            (filter (\<lambda>(g, i, d). flt d (dist_value binning)) (zip (gsc_usable one_entry) ms))
          = map (\<lambda>(cat, cat_err, inst, inst_err). (Fin cat, Fin cat_err, Fin inst, Fin inst_err)) ?P
        \<longrightarrow> (\<forall>(cat, cat_err, inst, inst_err) \<in> set ?P.
               0 < cat_err * cat_err + inst_err * inst_err)
        \<longrightarrow> nll (Fin 1, Fin (- 2)) x data eps_data = Fin (1 / 2 * wssr_inst_on_cat 1 (- 2) ?P)"
    by blast
  with one_kept [folded binning ms'] pos
  have "nll (Fin 1, Fin (- 2)) x data eps_data = Fin (1 / 2 * wssr_inst_on_cat 1 (- 2) ?P)"
    by blast
  with run show ?thesis
    unfolding arrays by simp
qed

text \<open>
  For two pairs with \<open>catalog = instrumental + 3\<close> the objective of the run is 0, its
  least value, at \<open>m = 1, b = -3\<close>, which gives the zero point 3. The weighted sum of
  squares of the model \<open>catalog_mag = m * instrumental_mag + b\<close> is 72 there and is
  0 at \<open>m = 1, b = 3\<close>.
\<close>

theorem regression_direction_counterexample:
  "nll (Fin 1, Fin (- 3)) (pairs_x two_pairs) (pairs_data two_pairs) (pairs_eps two_pairs) = Fin 0
   \<and> wssr_inst_on_cat 1 (- 3) two_pairs = 0
   \<and> wssr_cat_on_inst 1 (- 3) two_pairs = 72
   \<and> wssr_cat_on_inst 1 3 two_pairs = 0"
proof -
  have pos: "\<forall>(cat, cat_err, inst, inst_err) \<in> set two_pairs.
               0 < cat_err * cat_err + inst_err * inst_err"
    by (simp add: two_pairs_def)
  have "wssr_inst_on_cat 1 (- 3) two_pairs = 0"
    by (simp add: wssr_inst_on_cat_def two_pairs_def)
  moreover have "wssr_cat_on_inst 1 (- 3) two_pairs = 72"
    by (simp add: wssr_cat_on_inst_def two_pairs_def)
  moreover have "wssr_cat_on_inst 1 3 two_pairs = 0"
    by (simp add: wssr_cat_on_inst_def two_pairs_def)
  ultimately show ?thesis
    using nll_weighted_least_squares [OF pos, of 1 "- 3"] by simp
qed

end
